theory Spec2Isabelle
  imports Complex_Main "HOL-Library.Sublist"
begin

section \<open>JavaScript strings\<close>

text \<open>
  A JavaScript string is a sequence of UTF-16 code units: \<open>length\<close>, \<open>str[i]\<close>,
  \<open>substring\<close> and \<open>includes\<close> all count code units. A code unit is modelled by its number,
  so that the euro sign (code unit 8364) is one character, as it is for the script.
  \<open>js\<close> writes an ASCII literal of the source as such a string.
\<close>

type_synonym jsstring = "nat list"

definition js :: "string \<Rightarrow> jsstring" where
  "js s = map of_char s"

definition euro :: jsstring where
  "euro = [8364]"

text \<open>\<open>s.includes(t)\<close>: \<open>t\<close> occurs in \<open>s\<close> as a contiguous run (the empty string always does).\<close>

primrec js_includes :: "jsstring \<Rightarrow> jsstring \<Rightarrow> bool" where
  "js_includes [] t = (t = [])"
| "js_includes (c # cs) t = (prefix t (c # cs) \<or> js_includes cs t)"

text \<open>
  The characters \<open>String.prototype.trim\<close> removes and the regular expression class
  \<open>\s\<close> matches: ECMAScript's WhiteSpace and LineTerminator code units.
\<close>

definition is_ws :: "nat \<Rightarrow> bool" where
  "is_ws c = (c \<in> set [9, 10, 11, 12, 13, 32, 160, 5760, 8232, 8233, 8239, 8287, 12288, 65279]
              \<or> (8192 \<le> c \<and> c \<le> 8202))"

definition trim :: "jsstring \<Rightarrow> jsstring" where
  "trim s = rev (dropWhile is_ws (rev (dropWhile is_ws s)))"

text \<open>The regular expression class \<open>\d\<close>: the ASCII digits.\<close>

definition is_digit :: "nat \<Rightarrow> bool" where
  "is_digit c = (48 \<le> c \<and> c \<le> 57)"

section \<open>The regular expressions of the content script\<close>

text \<open>
  \<open>s.match(/(\d+[.,]\d+)/)\<close>, reduced to its capture group 1. \<open>matchDecimalAt\<close> is the
  attempt at the start of \<open>s\<close>: both \<open>\d+\<close> are greedy, and giving back digits of the first
  one never helps, since the next character is then a digit and not a separator.
  \<open>ratingMatch\<close> tries every start position from the left.
\<close>

definition matchDecimalAt :: "jsstring \<Rightarrow> jsstring option" where
  "matchDecimalAt s =
     (let ds = takeWhile is_digit s in
      if ds = [] then None
      else (case dropWhile is_digit s of
              [] \<Rightarrow> None
            | sep # rest \<Rightarrow>
                if (sep = 46 \<or> sep = 44) \<and> takeWhile is_digit rest \<noteq> []
                then Some (ds @ [sep] @ takeWhile is_digit rest)
                else None))"

fun ratingMatch :: "jsstring \<Rightarrow> jsstring option" where
  "ratingMatch [] = None"
| "ratingMatch (c # cs) =
     (case matchDecimalAt (c # cs) of
        Some m \<Rightarrow> Some m
      | None \<Rightarrow> ratingMatch cs)"

text \<open>
  \<open>href.match(/\/rooms\/(\d+)/)\<close>, reduced to its capture group 1: the leftmost
  \<open>/rooms/\<close> that a digit follows, with all the digits that follow it.
\<close>

definition roomMatchAt :: "jsstring \<Rightarrow> jsstring option" where
  "roomMatchAt s =
     (if prefix (js ''/rooms/'') s \<and> takeWhile is_digit (drop 7 s) \<noteq> []
      then Some (takeWhile is_digit (drop 7 s))
      else None)"

fun roomMatch :: "jsstring \<Rightarrow> jsstring option" where
  "roomMatch [] = None"
| "roomMatch (c # cs) =
     (case roomMatchAt (c # cs) of
        Some m \<Rightarrow> Some m
      | None \<Rightarrow> roomMatch cs)"

text \<open>
  \<open>s.replace(/^LABEL\s*/, "")\<close> for a literal \<open>LABEL\<close>: the label at the very start of
  \<open>s\<close> and the white space after it are removed; a string that does not start with the
  label is returned as it is.
\<close>

definition stripLabel :: "jsstring \<Rightarrow> jsstring \<Rightarrow> jsstring" where
  "stripLabel label s =
     (if prefix label s then dropWhile is_ws (drop (length label) s) else s)"

text \<open>
  \<open>s.replace(/Bearbeiten/i, "")\<close>: the first occurrence of the word, in any mix of upper
  and lower case, is removed. Without the \<open>u\<close> flag a character outside ASCII never
  matches an ASCII letter, so the comparison folds the ASCII letters only.
\<close>

definition upcase :: "nat \<Rightarrow> nat" where
  "upcase c = (if 97 \<le> c \<and> c \<le> 122 then c - 32 else c)"

definition prefix_ci :: "jsstring \<Rightarrow> jsstring \<Rightarrow> bool" where
  "prefix_ci pat s = prefix (map upcase pat) (map upcase s)"

fun removeFirstCI :: "jsstring \<Rightarrow> jsstring \<Rightarrow> jsstring" where
  "removeFirstCI pat [] = []"
| "removeFirstCI pat (c # cs) =
     (if prefix_ci pat (c # cs) then drop (length pat) (c # cs)
      else c # removeFirstCI pat cs)"

section \<open>The Similarity Matcher\<close>

text \<open>
  \<open>areStringSimilar\<close> (content.js, lines 333 to 354). \<open>matchLoop\<close> is its \<open>for\<close> loop
  with the loop variable \<open>i\<close> and the counter \<open>matches\<close>.

  The last line divides two integers and compares with the literal \<open>0.8\<close>. The script
  does that in IEEE double precision; the model divides exactly. The two agree for all
  strings shorter than \<open>2^50\<close> code units: the nearest double of a quotient \<open>m / n\<close>
  below \<open>4/5\<close> lies below the double of \<open>0.8\<close> as soon as \<open>1 / (5 n)\<close> exceeds one
  unit in the last place, and \<open>4 / 5\<close> itself rounds to the double of \<open>0.8\<close>.
  The division is reached only when neither string contains the other, so the longer
  length is not zero.
\<close>

function matchLoop :: "jsstring \<Rightarrow> jsstring \<Rightarrow> nat \<Rightarrow> nat \<Rightarrow> nat" where
  "matchLoop str1 str2 i matches =
     (if i < min (length str1) (length str2)
      then matchLoop str1 str2 (i + 1) (if str1 ! i = str2 ! i then matches + 1 else matches)
      else matches)"
  by pat_completeness auto
termination
  by (relation "measure (\<lambda>(str1, str2, i, matches). min (length str1) (length str2) - i)") auto

declare matchLoop.simps [simp del]

definition areStringSimilar :: "jsstring \<Rightarrow> jsstring \<Rightarrow> bool" where
  "areStringSimilar str1 str2 =
     (if js_includes str1 str2 \<or> js_includes str2 str1 then True
      else if \<bar>int (length str1) - int (length str2)\<bar> > 3 then False
      else rat_of_nat (matchLoop str1 str2 0 0)
             / rat_of_nat (max (length str1) (length str2)) \<ge> 0.8)"

section \<open>The page, as the content script sees it\<close>

text \<open>
  The script reads the page through the DOM interface of the browser, which is not code
  of the repository. The interface is a parameter of the model: a record of the DOM
  operations the script calls, over a type \<open>'e\<close> of element handles. Selectors, class
  names and attribute names are the literals of the source; texts and attribute values
  are JavaScript strings.

  Every operation may raise: its result is \<open>Inl\<close> of the raised value or \<open>Inr\<close> of
  the value returned. \<open>querySelector\<close>, \<open>getAttribute\<close> and \<open>nextElementSibling\<close>
  return \<open>null\<close> as \<open>None\<close>; the \<open>textContent\<close> of an element is always a string.
  A raised value carries its \<open>message\<close>; the empty message stands for a value with no
  message. In the case expressions below, \<open>err\<close> is the \<open>error\<close> of the source.
\<close>

datatype fault = Fault (message: jsstring)

type_synonym 'a res = "fault + 'a"

record 'e dom =
  doc_querySelector :: "string \<Rightarrow> 'e option res"
  doc_querySelectorAll :: "string \<Rightarrow> 'e list res"
  querySelector :: "'e \<Rightarrow> string \<Rightarrow> 'e option res"
  querySelectorAll :: "'e \<Rightarrow> string \<Rightarrow> 'e list res"
  textContent :: "'e \<Rightarrow> jsstring res"
  innerHTML :: "'e \<Rightarrow> jsstring res"
  outerHTML :: "'e \<Rightarrow> jsstring res"
  getAttribute :: "'e \<Rightarrow> string \<Rightarrow> jsstring option res"
  nextElementSibling :: "'e \<Rightarrow> 'e option res"
  classList_contains :: "'e \<Rightarrow> string \<Rightarrow> bool res"

text \<open>The TypeError of a method call on \<open>null\<close>.\<close>

definition typeError :: fault where
  "typeError = Fault (js ''Cannot read properties of null (reading 'match')'')"

text \<open>
  \<open>try { ... } catch (error) { console.log(...); return ""; }\<close>, the frame of each of
  the seven field extractors: whatever the body raises, the extractor returns the empty
  string.
\<close>

definition catchEmpty :: "jsstring res \<Rightarrow> jsstring" where
  "catchEmpty r = (case r of Inl err \<Rightarrow> [] | Inr s \<Rightarrow> s)"

section \<open>The Card Locator\<close>

text \<open>\<open>findListingCards\<close> (content.js, lines 112 to 140): the list \<open>selectors\<close> and the loop over it.\<close>

definition selectors :: "string list" where
  \<open>selectors =
     [''[data-testid="card-container"]'',
      ''.cy5jw6o[role="group"]'',
      ''.wishlist-card'',
      ''.wishlistCard'',
      ''div[role="group"]'']\<close>

fun findLoop :: "'e dom \<Rightarrow> string list \<Rightarrow> 'e list res" where
  "findLoop d [] = Inr []"
| "findLoop d (selector # rest) =
     (case doc_querySelectorAll d selector of
        Inl err \<Rightarrow> Inl err
      | Inr elements \<Rightarrow>
          if length elements > 0 then Inr elements else findLoop d rest)"

definition findListingCards :: "'e dom \<Rightarrow> 'e list res" where
  "findListingCards d = findLoop d selectors"

section \<open>The field extractors\<close>

text \<open>
  Each extractor is the frame \<open>catchEmpty\<close> around its body; the body is the block of
  the \<open>try\<close>. The \<open>console.log\<close> calls of the bodies print local strings and are left
  out.
\<close>

text \<open>\<open>extractPropertyName\<close> (lines 192 to 219).\<close>

definition extractPropertyName_body :: "'e dom \<Rightarrow> 'e \<Rightarrow> jsstring res" where
  \<open>extractPropertyName_body d cardEl =
     (case querySelector d cardEl ''[data-testid="listing-card-subtitle"] span, .t6mzqp7'' of
        Inl err \<Rightarrow> Inl err
      | Inr (Some titleElement) \<Rightarrow>
          (case textContent d titleElement of
             Inl err \<Rightarrow> Inl err
           | Inr text \<Rightarrow> Inr (trim text))
      | Inr None \<Rightarrow>
          (case querySelectorAll d cardEl ''[data-testid="listing-card-title"]'' of
             Inl err \<Rightarrow> Inl err
           | Inr [] \<Rightarrow> Inr []
           | Inr (first # others) \<Rightarrow>
               (case textContent d first of
                  Inl err \<Rightarrow> Inl err
                | Inr text \<Rightarrow> Inr (trim text))))\<close>

definition extractPropertyName :: "'e dom \<Rightarrow> 'e \<Rightarrow> jsstring" where
  "extractPropertyName d cardEl = catchEmpty (extractPropertyName_body d cardEl)"

text \<open>\<open>extractRating\<close> (lines 226 to 247).\<close>

definition extractRating_body :: "'e dom \<Rightarrow> 'e \<Rightarrow> jsstring res" where
  \<open>extractRating_body d cardEl =
     (case querySelector d cardEl ''.r4a59j5, [data-testid*='rating']'' of
        Inl err \<Rightarrow> Inl err
      | Inr None \<Rightarrow> Inr []
      | Inr (Some ratingContainer) \<Rightarrow>
          (case textContent d ratingContainer of
             Inl err \<Rightarrow> Inl err
           | Inr text \<Rightarrow>
               (case ratingMatch (trim text) of
                  Some rating \<Rightarrow> Inr rating
                | None \<Rightarrow> Inr [])))\<close>

definition extractRating :: "'e dom \<Rightarrow> 'e \<Rightarrow> jsstring" where
  "extractRating d cardEl = catchEmpty (extractRating_body d cardEl)"

text \<open>\<open>extractDate\<close> (lines 254 to 269): the query goes to the document, not to the card.\<close>

definition extractDate_body :: "'e dom \<Rightarrow> 'e \<Rightarrow> jsstring res" where
  "extractDate_body d cardEl =
     (case doc_querySelector d ''button.c12tvzjc'' of
        Inl err \<Rightarrow> Inl err
      | Inr None \<Rightarrow> Inr []
      | Inr (Some dateButton) \<Rightarrow>
          (case textContent d dateButton of
             Inl err \<Rightarrow> Inl err
           | Inr text \<Rightarrow> Inr (trim text)))"

definition extractDate :: "'e dom \<Rightarrow> 'e \<Rightarrow> jsstring" where
  "extractDate d cardEl = catchEmpty (extractDate_body d cardEl)"

text \<open>
  \<open>extractBedInfo\<close> (lines 276 to 325). \<open>dedupBedText\<close> is the part of its body that
  works on \<open>fullText\<close> (lines 292 to 316): \<open>substring(0, halfLength)\<close> is \<open>take\<close>,
  \<open>substring(halfLength)\<close> is \<open>drop\<close>. The test \<open>if (card)\<close> holds of every element.
\<close>

definition dedupBedText :: "jsstring \<Rightarrow> jsstring" where
  "dedupBedText fullText =
     (if length fullText mod 2 = 0
      then (let halfLength = length fullText div 2;
                firstHalf = trim (take halfLength fullText);
                secondHalf = trim (drop halfLength fullText)
            in if firstHalf = secondHalf \<or> areStringSimilar firstHalf secondHalf
               then firstHalf
               else fullText)
      else fullText)"

definition extractBedInfo_body :: "'e dom \<Rightarrow> 'e \<Rightarrow> jsstring res" where
  \<open>extractBedInfo_body d cardEl =
     (case querySelector d cardEl ''.g1qv1ctd'' of
        Inl err \<Rightarrow> Inl err
      | Inr None \<Rightarrow> Inr []
      | Inr (Some detailsContainer) \<Rightarrow>
          (case querySelectorAll d detailsContainer '':scope > div:not([aria-hidden='true'])'' of
             Inl err \<Rightarrow> Inl err
           | Inr divChildren \<Rightarrow>
               if length divChildren \<ge> 3
               then (case textContent d (divChildren ! 2) of
                       Inl err \<Rightarrow> Inl err
                     | Inr text \<Rightarrow> Inr (dedupBedText (trim text)))
               else Inr []))\<close>

definition extractBedInfo :: "'e dom \<Rightarrow> 'e \<Rightarrow> jsstring" where
  "extractBedInfo d cardEl = catchEmpty (extractBedInfo_body d cardEl)"

text \<open>
  \<open>extractPrice\<close> (lines 361 to 394). \<open>priceScan\<close> is the loop over the \<open>div\<close> and
  \<open>span\<close> elements of the card; it returns from the extractor at the first element whose
  text holds a euro or a dollar sign (code unit 36).
\<close>

fun priceScan :: "'e dom \<Rightarrow> 'e list \<Rightarrow> jsstring res" where
  "priceScan d [] = Inr []"
| "priceScan d (el # rest) =
     (case textContent d el of
        Inl err \<Rightarrow> Inl err
      | Inr text \<Rightarrow>
          if text \<noteq> [] \<and> (js_includes text euro \<or> js_includes text (js ''$''))
          then Inr (trim text)
          else priceScan d rest)"

definition extractPrice_body :: "'e dom \<Rightarrow> 'e \<Rightarrow> jsstring res" where
  \<open>extractPrice_body d cardEl =
     (case querySelector d cardEl ''._tt122m, [class*='price'], [class*='total']'' of
        Inl err \<Rightarrow> Inl err
      | Inr (Some totalPriceElement) \<Rightarrow>
          (case textContent d totalPriceElement of
             Inl err \<Rightarrow> Inl err
           | Inr text \<Rightarrow>
               Inr (stripLabel (js ''Insgesamt'') (stripLabel (js ''Gesamtpreis:'') (trim text))))
      | Inr None \<Rightarrow>
          (case querySelectorAll d cardEl ''div, span'' of
             Inl err \<Rightarrow> Inl err
           | Inr allElements \<Rightarrow> priceScan d allElements))\<close>

definition extractPrice :: "'e dom \<Rightarrow> 'e \<Rightarrow> jsstring" where
  "extractPrice d cardEl = catchEmpty (extractPrice_body d cardEl)"

text \<open>
  \<open>extractLink\<close> (lines 401 to 426). \<open>if (href)\<close> fails on \<open>null\<close> and on the empty
  string; \<open>href.split("?")[0]\<close> is the part of \<open>href\<close> before its first question mark
  (code unit 63).
\<close>

definition extractLink_body :: "'e dom \<Rightarrow> 'e \<Rightarrow> jsstring res" where
  \<open>extractLink_body d cardEl =
     (case querySelector d cardEl ''a[href*="/rooms/"]'' of
        Inl err \<Rightarrow> Inl err
      | Inr None \<Rightarrow> Inr []
      | Inr (Some linkElement) \<Rightarrow>
          (case getAttribute d linkElement ''href'' of
             Inl err \<Rightarrow> Inl err
           | Inr None \<Rightarrow> Inr []
           | Inr (Some href) \<Rightarrow>
               if href = [] then Inr []
               else (case roomMatch href of
                       Some roomId \<Rightarrow> Inr (js ''https://www.airbnb.com/rooms/'' @ roomId)
                     | None \<Rightarrow>
                         Inr (js ''https://www.airbnb.com'' @ takeWhile (\<lambda>c. c \<noteq> 63) href))))\<close>

definition extractLink :: "'e dom \<Rightarrow> 'e \<Rightarrow> jsstring" where
  "extractLink d cardEl = catchEmpty (extractLink_body d cardEl)"

text \<open>
  \<open>extractComment\<close> (lines 433 to 467). \<open>roomIdOfCard\<close> is its first block (lines 436
  to 445), which computes \<open>roomId\<close>; \<open>href.match\<close> on a \<open>null\<close> href raises a
  TypeError. The rest of the body does not mention \<open>roomId\<close>.
\<close>

definition roomIdOfCard :: "'e dom \<Rightarrow> 'e \<Rightarrow> jsstring res" where
  \<open>roomIdOfCard d cardEl =
     (case querySelector d cardEl ''a[href*="/rooms/"]'' of
        Inl err \<Rightarrow> Inl err
      | Inr None \<Rightarrow> Inr []
      | Inr (Some linkElement) \<Rightarrow>
          (case getAttribute d linkElement ''href'' of
             Inl err \<Rightarrow> Inl err
           | Inr None \<Rightarrow> Inl typeError
           | Inr (Some href) \<Rightarrow>
               (case roomMatch href of
                  Some roomId \<Rightarrow> Inr roomId
                | None \<Rightarrow> Inr [])))\<close>

definition commentOfDiv :: "'e dom \<Rightarrow> 'e \<Rightarrow> jsstring res" where
  "commentOfDiv d nextElement =
     (case querySelector d nextElement ''div.nzkbe2g'' of
        Inl err \<Rightarrow> Inl err
      | Inr None \<Rightarrow> Inr []
      | Inr (Some commentDiv) \<Rightarrow>
          (case textContent d commentDiv of
             Inl err \<Rightarrow> Inl err
           | Inr text \<Rightarrow> Inr (trim (removeFirstCI (js ''Bearbeiten'') text))))"

definition extractComment_body :: "'e dom \<Rightarrow> 'e \<Rightarrow> jsstring res" where
  "extractComment_body d cardEl =
     (case roomIdOfCard d cardEl of
        Inl err \<Rightarrow> Inl err
      | Inr roomId \<Rightarrow>
          (case nextElementSibling d cardEl of
             Inl err \<Rightarrow> Inl err
           | Inr None \<Rightarrow> Inr []
           | Inr (Some nextElement) \<Rightarrow>
               (case classList_contains d nextElement ''cpj3fk1'' of
                  Inl err \<Rightarrow> Inl err
                | Inr False \<Rightarrow> Inr []
                | Inr True \<Rightarrow> commentOfDiv d nextElement)))"

definition extractComment :: "'e dom \<Rightarrow> 'e \<Rightarrow> jsstring" where
  "extractComment d cardEl = catchEmpty (extractComment_body d cardEl)"

section \<open>The Listing Assembler\<close>

record listing =
  propertyName :: jsstring
  rating :: jsstring
  date :: jsstring
  beds :: jsstring
  totalPrice :: jsstring
  link :: jsstring
  comment :: jsstring

text \<open>
  The object handed to \<open>sendResponse\<close>: \<open>{success: true, data, wishlistName}\<close> or
  \<open>{success: false, error}\<close>. The second has no \<open>data\<close> field.
\<close>

datatype response =
    Success (data: "listing list") (wishlistName: jsstring)
  | Failure (error: jsstring)

definition success :: "response \<Rightarrow> bool" where
  "success r = (case r of Success records name \<Rightarrow> True | Failure msg \<Rightarrow> False)"

text \<open>
  \<open>extractListingData\<close> (lines 170 to 185). For the first card it reads
  \<open>card.outerHTML\<close> to print it, outside every extractor's \<open>try\<close>.
\<close>

definition extractListingData :: "'e dom \<Rightarrow> 'e \<Rightarrow> nat \<Rightarrow> listing res" where
  "extractListingData d cardEl index =
     (case (if index = 0 then outerHTML d cardEl else Inr []) of
        Inl err \<Rightarrow> Inl err
      | Inr html \<Rightarrow>
          Inr \<lparr>propertyName = extractPropertyName d cardEl,
               rating = extractRating d cardEl,
               date = extractDate d cardEl,
               beds = extractBedInfo d cardEl,
               totalPrice = extractPrice d cardEl,
               link = extractLink d cardEl,
               comment = extractComment d cardEl\<rparr>)"

text \<open>\<open>listingCards.map((card, index) => extractListingData(card, index))\<close>, from \<open>index\<close> on.\<close>

fun mapCards :: "'e dom \<Rightarrow> nat \<Rightarrow> 'e list \<Rightarrow> listing list res" where
  "mapCards d index [] = Inr []"
| "mapCards d index (cardEl # rest) =
     (case extractListingData d cardEl index of
        Inl err \<Rightarrow> Inl err
      | Inr r \<Rightarrow>
          (case mapCards d (index + 1) rest of
             Inl err \<Rightarrow> Inl err
           | Inr rs \<Rightarrow> Inr (r # rs)))"

text \<open>
  \<open>handleNoListingsFound\<close> (lines 146 to 162): it reads the \<open>main\<close> element and its
  \<open>innerHTML\<close> to print them, then sends the failure.
\<close>

definition handleNoListingsFound :: "'e dom \<Rightarrow> response res" where
  "handleNoListingsFound d =
     (case doc_querySelector d ''main'' of
        Inl err \<Rightarrow> Inl err
      | Inr wishlistArea \<Rightarrow>
          (case (case wishlistArea of None \<Rightarrow> Inr [] | Some area \<Rightarrow> innerHTML d area) of
             Inl err \<Rightarrow> Inl err
           | Inr html \<Rightarrow>
               Inr (Failure (js ''No listing cards found. Please refresh the page and try again.''))))"

text \<open>
  \<open>extractAndSendListingData\<close> (lines 73 to 106); its value is the object it hands to
  \<open>sendResponse\<close>. \<open>caught\<close> is its \<open>catch\<close> block, with
  \<open>error.message || "Unknown error occurred during extraction"\<close>.
\<close>

definition caught :: "fault \<Rightarrow> response" where
  "caught err =
     Failure (if message err \<noteq> [] then message err
              else js ''Unknown error occurred during extraction'')"

definition extractAndSendListingData :: "'e dom \<Rightarrow> jsstring \<Rightarrow> response" where
  "extractAndSendListingData d name =
     (case findListingCards d of
        Inl err \<Rightarrow> caught err
      | Inr listingCards \<Rightarrow>
          if length listingCards = 0
          then (case handleNoListingsFound d of
                  Inl err \<Rightarrow> caught err
                | Inr r \<Rightarrow> r)
          else (case mapCards d 0 listingCards of
                  Inl err \<Rightarrow> caught err
                | Inr wishlistData \<Rightarrow> Success wishlistData name))"

section \<open>The comment, as read from the following sibling alone\<close>

text \<open>
  Stated from the words of the claim about the comment extractor, not from the code: the
  comment as a function of the element that follows the card, of whether that element
  carries the class \<open>cpj3fk1\<close>, and of the text of the \<open>div.nzkbe2g\<close> inside it, with
  the word "Bearbeiten" removed. The link anchor of the card does not occur in it.
\<close>

definition siblingComment :: "'e dom \<Rightarrow> 'e \<Rightarrow> jsstring" where
  "siblingComment d cardEl =
     (case nextElementSibling d cardEl of
        Inr (Some nextElement) \<Rightarrow>
          (case classList_contains d nextElement ''cpj3fk1'' of
             Inr True \<Rightarrow>
               (case querySelector d nextElement ''div.nzkbe2g'' of
                  Inr (Some commentDiv) \<Rightarrow>
                    (case textContent d commentDiv of
                       Inr text \<Rightarrow> trim (removeFirstCI (js ''Bearbeiten'') text)
                     | Inl err \<Rightarrow> [])
                | _ \<Rightarrow> [])
           | _ \<Rightarrow> [])
      | _ \<Rightarrow> [])"

section \<open>Example pages\<close>

text \<open>
  Two concrete pages, with element handles that are numbers. \<open>wishlistPage\<close> shows two
  cards (10 and 20) that only the second and the last card selector find; the title of
  card 20 raises when its text is read, and card 10 is followed by a comment wrapper (30).
  \<open>emptyPage\<close> shows no card at all. \<open>wishlistPageRelinked\<close> is \<open>wishlistPage\<close> with
  another \<open>href\<close> on every anchor. \<open>totalPage\<close> has one card (0) whose price element
  (7) reads "Total: " followed by the euro sign and "540".
\<close>

definition wishlistPage :: "nat dom" where
  \<open>wishlistPage =
     \<lparr>doc_querySelector = (\<lambda>sel. Inr (map_of [(''button.c12tvzjc'', 9)] sel)),
      doc_querySelectorAll =
        (\<lambda>sel. Inr (if sel = ''.cy5jw6o[role="group"]'' \<or> sel = ''div[role="group"]''
                      then [10, 20] else [])),
      querySelector =
        (\<lambda>e sel. Inr (map_of
           [((10, ''[data-testid="listing-card-subtitle"] span, .t6mzqp7''), 11),
            ((10, ''.r4a59j5, [data-testid*='rating']''), 12),
            ((10, ''.g1qv1ctd''), 13),
            ((10, ''._tt122m, [class*='price'], [class*='total']''), 14),
            ((10, ''a[href*="/rooms/"]''), 15),
            ((30, ''div.nzkbe2g''), 31),
            ((20, ''[data-testid="listing-card-subtitle"] span, .t6mzqp7''), 21),
            ((20, ''a[href*="/rooms/"]''), 25)] (e, sel))),
      querySelectorAll =
        (\<lambda>e sel. Inr (if e = 13 \<and> sel = '':scope > div:not([aria-hidden='true'])''
                        then [131, 132, 133]
                        else if e = 20 \<and> sel = ''div, span'' then [22, 23] else [])),
      textContent =
        (\<lambda>e. if e = 21 then Inl (Fault (js ''node is detached''))
             else Inr (case map_of
                    [(9, js ''May 12 - 15''),
                     (11, js '' Cozy loft ''),
                     (12, js ''4,92 (35)''),
                     (133, js ''2 beds2 beds''),
                     (14, js ''Gesamtpreis: '' @ euro @ js ''540''),
                     (31, js ''Nice viewBearbeiten''),
                     (22, js ''Villa''),
                     (23, js '' $300 total'')] e of
                   Some t \<Rightarrow> t | None \<Rightarrow> [])),
      innerHTML = (\<lambda>e. Inr []),
      outerHTML = (\<lambda>e. Inr (js ''<div role="group">'')),
      getAttribute =
        (\<lambda>e a. Inr (map_of
           [((15, ''href''), js ''/rooms/12345678?source=wishlist''),
            ((25, ''href''), js ''/rooms/plus/abc?x=1'')] (e, a))),
      nextElementSibling = (\<lambda>e. Inr (map_of [(10, 30)] e)),
      classList_contains = (\<lambda>e c. Inr (e = 30 \<and> c = ''cpj3fk1''))\<rparr>\<close>

definition emptyPage :: "nat dom" where
  "emptyPage =
     \<lparr>doc_querySelector = (\<lambda>sel. Inr (map_of [(''main'', 5), (''h1'', 6)] sel)),
      doc_querySelectorAll = (\<lambda>sel. Inr []),
      querySelector = (\<lambda>e sel. Inr None),
      querySelectorAll = (\<lambda>e sel. Inr []),
      textContent = (\<lambda>e. Inr (js ''My trips'')),
      innerHTML = (\<lambda>e. Inr (js ''<h1>My trips</h1>'')),
      outerHTML = (\<lambda>e. Inr (js ''<main><h1>My trips</h1></main>'')),
      getAttribute = (\<lambda>e a. Inr None),
      nextElementSibling = (\<lambda>e. Inr None),
      classList_contains = (\<lambda>e c. Inr False)\<rparr>"

definition wishlistPageRelinked :: "nat dom" where
  "wishlistPageRelinked =
     wishlistPage\<lparr>getAttribute := (\<lambda>e a. Inr (Some (js ''/rooms/987?check_in=2025-05-12'')))\<rparr>"

definition totalPage :: "nat dom" where
  \<open>totalPage =
     emptyPage
       \<lparr>querySelector :=
          (\<lambda>e sel. Inr (if e = 0 \<and> sel = ''._tt122m, [class*='price'], [class*='total']''
                         then Some 7 else None)),
        textContent := (\<lambda>e. Inr (js ''Total: '' @ euro @ js ''540''))\<rparr>\<close>

section \<open>Properties of the string functions\<close>

lemma js_includes_iff: "js_includes s t \<longleftrightarrow> (\<exists>p q. s = p @ t @ q)"
proof (induction s)
  case Nil
  then show ?case by simp
next
  case (Cons c cs)
  show ?case
  proof
    assume "js_includes (c # cs) t"
    then consider "prefix t (c # cs)" | "js_includes cs t" by auto
    then show "\<exists>p q. c # cs = p @ t @ q"
    proof cases
      case 1
      then obtain q where "c # cs = t @ q" by (auto simp: prefix_def)
      then have "c # cs = [] @ t @ q" by simp
      then show ?thesis by blast
    next
      case 2
      with Cons.IH obtain p q where "cs = p @ t @ q" by blast
      then have "c # cs = (c # p) @ t @ q" by simp
      then show ?thesis by blast
    qed
  next
    assume "\<exists>p q. c # cs = p @ t @ q"
    then obtain p q where pq: "c # cs = p @ t @ q" by blast
    show "js_includes (c # cs) t"
    proof (cases p)
      case Nil
      with pq have "prefix t (c # cs)" by (simp add: prefix_def)
      then show ?thesis by simp
    next
      case (Cons d ps)
      with pq have "cs = ps @ t @ q" by simp
      with Cons.IH have "js_includes cs t" by blast
      then show ?thesis by simp
    qed
  qed
qed

lemma matchLoop_count:
  "matchLoop a b i m = m + card {j. i \<le> j \<and> j < min (length a) (length b) \<and> a ! j = b ! j}"
proof (induction a b i m rule: matchLoop.induct)
  case (1 str1 str2 i matches)
  define n where "n = min (length str1) (length str2)"
  define S where "S = (\<lambda>k. {j. k \<le> j \<and> j < n \<and> str1 ! j = str2 ! j})"
  have fin: "finite (S k)" for k unfolding S_def by simp
  have goal: "?case \<longleftrightarrow> matchLoop str1 str2 i matches = matches + card (S i)"
    unfolding S_def n_def by simp
  show ?case
  proof (cases "i < n")
    case False
    then have "S i = {}" unfolding S_def by auto
    moreover have "matchLoop str1 str2 i matches = matches"
      using False unfolding n_def by (subst matchLoop.simps) auto
    ultimately show ?thesis unfolding goal by simp
  next
    case True
    show ?thesis
    proof (cases "str1 ! i = str2 ! i")
      case eq: True
      have "S i = insert i (S (i + 1))"
        unfolding S_def using True eq by (auto simp: le_Suc_eq Suc_le_eq)
      moreover have "i \<notin> S (i + 1)" unfolding S_def by simp
      ultimately have c: "card (S i) = Suc (card (S (i + 1)))" using fin by simp
      have "matchLoop str1 str2 i matches = matchLoop str1 str2 (i + 1) (matches + 1)"
        using True eq unfolding n_def by (subst matchLoop.simps) auto
      also have "\<dots> = (matches + 1) + card (S (i + 1))"
        using "1.IH" True eq unfolding S_def n_def by simp
      finally show ?thesis unfolding goal using c by simp
    next
      case neq: False
      have c: "S i = S (i + 1)"
        unfolding S_def using neq by (auto simp: Suc_le_eq) (metis le_neq_implies_less)
      have "matchLoop str1 str2 i matches = matchLoop str1 str2 (i + 1) matches"
        using True neq unfolding n_def by (subst matchLoop.simps) auto
      also have "\<dots> = matches + card (S (i + 1))"
        using "1.IH" True neq unfolding S_def n_def by simp
      finally show ?thesis unfolding goal using c by simp
    qed
  qed
qed

section \<open>Properties of the regular expressions\<close>

lemma takeWhile_digits:
  "\<forall>c\<in>set m. is_digit c \<Longrightarrow> q = [] \<or> \<not> is_digit (hd q) \<Longrightarrow> takeWhile is_digit (m @ q) = m"
  by (cases q) (simp_all add: takeWhile_append2 takeWhile_eq_all_conv [THEN iffD2] takeWhile_append)

lemma length_rooms: "length (js ''/rooms/'') = 7"
  by (simp add: js_def)

lemma roomMatchAt_Some:
  "roomMatchAt s = Some m \<longleftrightarrow>
     (\<exists>q. s = js ''/rooms/'' @ m @ q \<and> m \<noteq> [] \<and> (\<forall>c\<in>set m. is_digit c)
          \<and> (q = [] \<or> \<not> is_digit (hd q)))"
proof
  assume a: "roomMatchAt s = Some m"
  then have p: "prefix (js ''/rooms/'') s" and m: "m = takeWhile is_digit (drop 7 s)" and ne: "m \<noteq> []"
    by (auto simp: roomMatchAt_def split: if_splits)
  from p obtain rest where s: "s = js ''/rooms/'' @ rest" by (auto simp: prefix_def)
  then have d: "drop 7 s = rest" using length_rooms by simp
  have rest: "rest = m @ dropWhile is_digit rest" using m d by simp
  have dig: "\<forall>c\<in>set m. is_digit c" using m by (auto dest: set_takeWhileD)
  have stop: "dropWhile is_digit rest = [] \<or> \<not> is_digit (hd (dropWhile is_digit rest))"
    using hd_dropWhile [of is_digit rest] by blast
  from s rest have "s = js ''/rooms/'' @ m @ dropWhile is_digit rest" by simp
  with ne dig stop show "\<exists>q. s = js ''/rooms/'' @ m @ q \<and> m \<noteq> [] \<and> (\<forall>c\<in>set m. is_digit c)
          \<and> (q = [] \<or> \<not> is_digit (hd q))" by blast
next
  assume "\<exists>q. s = js ''/rooms/'' @ m @ q \<and> m \<noteq> [] \<and> (\<forall>c\<in>set m. is_digit c)
          \<and> (q = [] \<or> \<not> is_digit (hd q))"
  then obtain q where s: "s = js ''/rooms/'' @ m @ q" and ne: "m \<noteq> []"
    and dig: "\<forall>c\<in>set m. is_digit c" and stop: "q = [] \<or> \<not> is_digit (hd q)" by blast
  have d: "drop 7 s = m @ q" using s length_rooms by simp
  have "takeWhile is_digit (drop 7 s) = m" unfolding d by (rule takeWhile_digits [OF dig stop])
  moreover have "prefix (js ''/rooms/'') s" using s by simp
  ultimately show "roomMatchAt s = Some m" using ne by (simp add: roomMatchAt_def)
qed

lemma roomMatchAt_None:
  "roomMatchAt s = None \<longleftrightarrow> \<not> (\<exists>c q. s = js ''/rooms/'' @ c # q \<and> is_digit c)"
proof
  assume a: "roomMatchAt s = None"
  show "\<not> (\<exists>c q. s = js ''/rooms/'' @ c # q \<and> is_digit c)"
  proof
    assume "\<exists>c q. s = js ''/rooms/'' @ c # q \<and> is_digit c"
    then obtain c q where s: "s = js ''/rooms/'' @ c # q" and c: "is_digit c" by blast
    have "drop 7 s = c # q" using s length_rooms by simp
    then have "takeWhile is_digit (drop 7 s) \<noteq> []" using c by simp
    moreover have "prefix (js ''/rooms/'') s" using s by simp
    ultimately show False using a by (simp add: roomMatchAt_def)
  qed
next
  assume n: "\<not> (\<exists>c q. s = js ''/rooms/'' @ c # q \<and> is_digit c)"
  show "roomMatchAt s = None"
  proof (rule ccontr)
    assume "roomMatchAt s \<noteq> None"
    then obtain m where "roomMatchAt s = Some m" by auto
    then obtain q where s: "s = js ''/rooms/'' @ m @ q" and ne: "m \<noteq> []"
      and dig: "\<forall>c\<in>set m. is_digit c" unfolding roomMatchAt_Some by blast
    from ne obtain c m' where m: "m = c # m'" by (cases m) auto
    with s dig have "s = js ''/rooms/'' @ c # (m' @ q)" "is_digit c" by simp_all
    with n show False by blast
  qed
qed

lemma roomMatch_None:
  "roomMatch s = None \<longleftrightarrow> \<not> (\<exists>p c q. s = p @ js ''/rooms/'' @ c # q \<and> is_digit c)"
proof (induction s)
  case Nil
  show ?case by (simp add: js_def)
next
  case (Cons x xs)
  show ?case
  proof
    assume a: "roomMatch (x # xs) = None"
    then have at: "roomMatchAt (x # xs) = None" and tl: "roomMatch xs = None"
      by (auto split: option.splits)
    show "\<not> (\<exists>p c q. x # xs = p @ js ''/rooms/'' @ c # q \<and> is_digit c)"
    proof
      assume "\<exists>p c q. x # xs = p @ js ''/rooms/'' @ c # q \<and> is_digit c"
      then obtain p c q where e: "x # xs = p @ js ''/rooms/'' @ c # q" and c: "is_digit c" by blast
      show False
      proof (cases p)
        case Nil
        with e c at show False unfolding roomMatchAt_None by auto
      next
        case (Cons y ys)
        with e have "xs = ys @ js ''/rooms/'' @ c # q" by simp
        with c tl Cons.IH show False by blast
      qed
    qed
  next
    assume n: "\<not> (\<exists>p c q. x # xs = p @ js ''/rooms/'' @ c # q \<and> is_digit c)"
    have at: "roomMatchAt (x # xs) = None"
      unfolding roomMatchAt_None
    proof
      assume "\<exists>c q. x # xs = js ''/rooms/'' @ c # q \<and> is_digit c"
      then obtain c q where "x # xs = [] @ js ''/rooms/'' @ c # q" "is_digit c" by auto
      with n show False by blast
    qed
    have "\<not> (\<exists>p c q. xs = p @ js ''/rooms/'' @ c # q \<and> is_digit c)"
    proof
      assume "\<exists>p c q. xs = p @ js ''/rooms/'' @ c # q \<and> is_digit c"
      then obtain p c q where "xs = p @ js ''/rooms/'' @ c # q" "is_digit c" by blast
      then have "x # xs = (x # p) @ js ''/rooms/'' @ c # q" "is_digit c" by simp_all
      with n show False by blast
    qed
    with Cons.IH have "roomMatch xs = None" by simp
    with at show "roomMatch (x # xs) = None" by simp
  qed
qed

lemma roomMatch_Some:
  "roomMatch s = Some m \<Longrightarrow>
     \<exists>p q. s = p @ js ''/rooms/'' @ m @ q \<and> m \<noteq> [] \<and> (\<forall>c\<in>set m. is_digit c)
        \<and> (q = [] \<or> \<not> is_digit (hd q))
        \<and> \<not> (\<exists>p' c q'. length p' < length p \<and> s = p' @ js ''/rooms/'' @ c # q' \<and> is_digit c)"
proof (induction s)
  case Nil
  then show ?case by simp
next
  case (Cons x xs)
  show ?case
  proof (cases "roomMatchAt (x # xs)")
    case (Some m')
    with Cons.prems have "m' = m" by simp
    with Some obtain q where "x # xs = [] @ js ''/rooms/'' @ m @ q" "m \<noteq> []"
      "\<forall>c\<in>set m. is_digit c" "q = [] \<or> \<not> is_digit (hd q)"
      unfolding roomMatchAt_Some by auto
    moreover have "\<not> (\<exists>p' c q'. length p' < length ([] :: jsstring)
        \<and> x # xs = p' @ js ''/rooms/'' @ c # q' \<and> is_digit c)" by simp
    ultimately show ?thesis by blast
  next
    case None
    with Cons.prems have "roomMatch xs = Some m" by simp
    from Cons.IH [OF this] obtain p q where xs: "xs = p @ js ''/rooms/'' @ m @ q" and ne: "m \<noteq> []"
      and dig: "\<forall>c\<in>set m. is_digit c" and stop: "q = [] \<or> \<not> is_digit (hd q)"
      and left: "\<not> (\<exists>p' c q'. length p' < length p \<and> xs = p' @ js ''/rooms/'' @ c # q' \<and> is_digit c)"
      by blast
    have e: "x # xs = (x # p) @ js ''/rooms/'' @ m @ q" using xs by simp
    have "\<not> (\<exists>p' c q'. length p' < length (x # p)
        \<and> x # xs = p' @ js ''/rooms/'' @ c # q' \<and> is_digit c)"
    proof
      assume "\<exists>p' c q'. length p' < length (x # p)
        \<and> x # xs = p' @ js ''/rooms/'' @ c # q' \<and> is_digit c"
      then obtain p' c q' where l: "length p' < length (x # p)"
        and e': "x # xs = p' @ js ''/rooms/'' @ c # q'" and c: "is_digit c" by blast
      show False
      proof (cases p')
        case Nil
        with e' c None show False unfolding roomMatchAt_None by auto
      next
        case (Cons y ys)
        with e' l have "xs = ys @ js ''/rooms/'' @ c # q'" "length ys < length p" by simp_all
        with c left show False by blast
      qed
    qed
    with e ne dig stop show ?thesis by blast
  qed
qed

lemma split_question:
  "\<exists>path rest. (href = path \<or> href = path @ 63 # rest) \<and> (63::nat) \<notin> set path
     \<and> takeWhile (\<lambda>c. c \<noteq> 63) href = path"
proof (cases "dropWhile (\<lambda>c. c \<noteq> (63::nat)) href")
  case Nil
  then have "takeWhile (\<lambda>c. c \<noteq> 63) href = href"
    by (metis append_Nil2 takeWhile_dropWhile_id)
  moreover have "(63::nat) \<notin> set (takeWhile (\<lambda>c. c \<noteq> 63) href)"
    by (auto dest: set_takeWhileD)
  ultimately show ?thesis by metis
next
  case (Cons x rest)
  then have "x = 63" using hd_dropWhile [of "\<lambda>c. c \<noteq> (63::nat)" href] by auto
  with Cons have "href = takeWhile (\<lambda>c. c \<noteq> 63) href @ 63 # rest"
    by (metis takeWhile_dropWhile_id)
  moreover have "(63::nat) \<notin> set (takeWhile (\<lambda>c. c \<noteq> 63) href)"
    by (auto dest: set_takeWhileD)
  ultimately show ?thesis by blast
qed

lemma stripLabel_present:
  "\<forall>ch\<in>set ws. is_ws ch \<Longrightarrow> rest = [] \<or> \<not> is_ws (hd rest)
     \<Longrightarrow> stripLabel label (label @ ws @ rest) = rest"
  by (cases rest) (simp_all add: stripLabel_def dropWhile_append)

lemma stripLabel_absent: "\<not> prefix label s \<Longrightarrow> stripLabel label s = s"
  by (simp add: stripLabel_def)

section \<open>The example pages, evaluated\<close>

lemma wp_cards: "findListingCards wishlistPage = Inr [10, 20]"
  by (simp add: findListingCards_def selectors_def wishlistPage_def)

lemma wp_name1: "extractPropertyName_body wishlistPage 10 = Inr (js ''Cozy loft'')"
  by (simp add: extractPropertyName_body_def wishlistPage_def js_def trim_def is_ws_def)

lemma wp_name2: "extractPropertyName_body wishlistPage 20 = Inl (Fault (js ''node is detached''))"
  by (simp add: extractPropertyName_body_def wishlistPage_def)

lemma wp_rating1: "extractRating_body wishlistPage 10 = Inr (js ''4,92'')"
  by (simp add: extractRating_body_def wishlistPage_def js_def trim_def is_ws_def
      matchDecimalAt_def is_digit_def)

lemma wp_rating2: "extractRating_body wishlistPage 20 = Inr []"
  by (simp add: extractRating_body_def wishlistPage_def)

lemma wp_date: "extractDate_body wishlistPage c = Inr (js ''May 12 - 15'')"
  by (simp add: extractDate_body_def wishlistPage_def js_def trim_def is_ws_def)

lemma wp_beds1: "extractBedInfo_body wishlistPage 10 = Inr (js ''2 beds'')"
  by (simp add: extractBedInfo_body_def wishlistPage_def dedupBedText_def js_def trim_def is_ws_def Let_def)

lemma wp_beds2: "extractBedInfo_body wishlistPage 20 = Inr []"
  by (simp add: extractBedInfo_body_def wishlistPage_def)

lemma wp_price1: "extractPrice_body wishlistPage 10 = Inr (euro @ js ''540'')"
  by (simp add: extractPrice_body_def wishlistPage_def stripLabel_def euro_def js_def trim_def is_ws_def)

lemma wp_price2: "extractPrice_body wishlistPage 20 = Inr (js ''$300 total'')"
  by (simp add: extractPrice_body_def wishlistPage_def euro_def js_def trim_def is_ws_def)

lemma wp_link1: "extractLink_body wishlistPage 10 = Inr (js ''https://www.airbnb.com/rooms/12345678'')"
  by (simp add: extractLink_body_def wishlistPage_def js_def roomMatchAt_def is_digit_def)

lemma wp_link2: "extractLink_body wishlistPage 20 = Inr (js ''https://www.airbnb.com/rooms/plus/abc'')"
  by (simp add: extractLink_body_def wishlistPage_def js_def roomMatchAt_def is_digit_def)

lemma wp_comment1: "extractComment_body wishlistPage 10 = Inr (js ''Nice view'')"
  by (simp add: extractComment_body_def roomIdOfCard_def commentOfDiv_def wishlistPage_def js_def
      roomMatchAt_def is_digit_def prefix_ci_def upcase_def trim_def is_ws_def)

lemma wp_comment2: "extractComment_body wishlistPage 20 = Inr []"
  by (simp add: extractComment_body_def roomIdOfCard_def commentOfDiv_def wishlistPage_def js_def
      roomMatchAt_def is_digit_def)

lemma wp_outer: \<open>outerHTML wishlistPage (hd [10, 20]) = Inr (js ''<div role="group">'')\<close>
  by (simp add: wishlistPage_def)

lemma ep_cards: "findListingCards emptyPage = Inr []"
  by (simp add: findListingCards_def selectors_def emptyPage_def)

lemma wp_run:
  "extractAndSendListingData wishlistPage name =
     Success
       [\<lparr>propertyName = js ''Cozy loft'', rating = js ''4,92'', date = js ''May 12 - 15'',
         beds = js ''2 beds'', totalPrice = euro @ js ''540'',
         link = js ''https://www.airbnb.com/rooms/12345678'', comment = js ''Nice view''\<rparr>,
        \<lparr>propertyName = [], rating = [], date = js ''May 12 - 15'',
         beds = [], totalPrice = js ''$300 total'',
         link = js ''https://www.airbnb.com/rooms/plus/abc'', comment = []\<rparr>]
       name"
proof -
  have "\<exists>h. outerHTML wishlistPage 10 = Inr h" by (simp add: wishlistPage_def)
  then obtain h where h: "outerHTML wishlistPage 10 = Inr h" by (elim exE)
  have r1: "extractListingData wishlistPage 10 0 =
      Inr \<lparr>propertyName = js ''Cozy loft'', rating = js ''4,92'', date = js ''May 12 - 15'',
           beds = js ''2 beds'', totalPrice = euro @ js ''540'',
           link = js ''https://www.airbnb.com/rooms/12345678'', comment = js ''Nice view''\<rparr>"
    by (simp add: extractListingData_def h extractPropertyName_def extractRating_def
        extractDate_def extractBedInfo_def extractPrice_def extractLink_def extractComment_def
        catchEmpty_def wp_name1 wp_rating1 wp_date wp_beds1 wp_price1 wp_link1 wp_comment1)
  have r2: "extractListingData wishlistPage 20 (Suc 0) =
      Inr \<lparr>propertyName = [], rating = [], date = js ''May 12 - 15'',
           beds = [], totalPrice = js ''$300 total'',
           link = js ''https://www.airbnb.com/rooms/plus/abc'', comment = []\<rparr>"
    by (simp add: extractListingData_def extractPropertyName_def extractRating_def
        extractDate_def extractBedInfo_def extractPrice_def extractLink_def extractComment_def
        catchEmpty_def wp_name2 wp_rating2 wp_date wp_beds2 wp_price2 wp_link2 wp_comment2)
  show ?thesis by (simp add: extractAndSendListingData_def wp_cards r1 r2)
qed

section \<open>Properties of the Card Locator and of the Listing Assembler\<close>

lemma findLoop_first:
  "\<lbrakk>i < length sels; \<forall>j<i. doc_querySelectorAll d (sels ! j) = Inr [];
    doc_querySelectorAll d (sels ! i) = Inr els; els \<noteq> []\<rbrakk>
   \<Longrightarrow> findLoop d sels = Inr els"
proof (induction sels arbitrary: i)
  case Nil
  then show ?case by simp
next
  case (Cons s sels)
  show ?case
  proof (cases i)
    case 0
    with Cons.prems show ?thesis by simp
  next
    case (Suc k)
    from Cons.prems Suc have "doc_querySelectorAll d s = Inr []" by auto
    moreover have "findLoop d sels = Inr els"
    proof (rule Cons.IH [of k])
      show "k < length sels" using Cons.prems Suc by simp
      show "\<forall>j<k. doc_querySelectorAll d (sels ! j) = Inr []"
        using Cons.prems(2) Suc by auto
      show "doc_querySelectorAll d (sels ! k) = Inr els" using Cons.prems Suc by simp
      show "els \<noteq> []" by fact
    qed
    ultimately show ?thesis by simp
  qed
qed

lemma findLoop_none:
  "\<forall>j<length sels. doc_querySelectorAll d (sels ! j) = Inr [] \<Longrightarrow> findLoop d sels = Inr []"
proof (induction sels)
  case Nil
  then show ?case by simp
next
  case (Cons s sels)
  from Cons.prems have "doc_querySelectorAll d s = Inr []" by auto
  moreover have "findLoop d sels = Inr []"
    using Cons.prems by (intro Cons.IH) auto
  ultimately show ?case by simp
qed

lemma extractListingData_fields:
  "extractListingData d c i = Inr r \<Longrightarrow>
     propertyName r = extractPropertyName d c \<and> rating r = extractRating d c
     \<and> date r = extractDate d c \<and> beds r = extractBedInfo d c
     \<and> totalPrice r = extractPrice d c \<and> link r = extractLink d c
     \<and> comment r = extractComment d c"
  unfolding extractListingData_def by (cases "if i = 0 then outerHTML d c else Inr []") auto

lemma extractListingData_later: "i \<noteq> 0 \<Longrightarrow> \<exists>r. extractListingData d c i = Inr r"
  by (simp add: extractListingData_def)

lemma mapCards_step:
  assumes r: "extractListingData d c i = Inr r"
    and rs: "mapCards d (Suc i) cs = Inr rs" "length rs = length cs"
      "\<forall>k<length cs. extractListingData d (cs ! k) (Suc i + k) = Inr (rs ! k)"
  shows "mapCards d i (c # cs) = Inr (r # rs) \<and> length (r # rs) = length (c # cs)
     \<and> (\<forall>k<length (c # cs). extractListingData d ((c # cs) ! k) (i + k) = Inr ((r # rs) ! k))"
proof (intro conjI allI impI)
  show "mapCards d i (c # cs) = Inr (r # rs)" using r rs(1) by simp
  show "length (r # rs) = length (c # cs)" using rs(2) by simp
  fix k assume k: "k < length (c # cs)"
  show "extractListingData d ((c # cs) ! k) (i + k) = Inr ((r # rs) ! k)"
  proof (cases k)
    case 0
    then show ?thesis using r by simp
  next
    case (Suc j)
    with k have "j < length cs" by simp
    with rs(3) have "extractListingData d (cs ! j) (Suc i + j) = Inr (rs ! j)" by blast
    then show ?thesis using Suc by simp
  qed
qed

lemma mapCards_later:
  "i \<noteq> 0 \<Longrightarrow> \<exists>rs. mapCards d i cs = Inr rs \<and> length rs = length cs
     \<and> (\<forall>k<length cs. extractListingData d (cs ! k) (i + k) = Inr (rs ! k))"
proof (induction cs arbitrary: i)
  case Nil
  then show ?case by simp
next
  case (Cons c cs)
  from extractListingData_later [OF Cons.prems, of d c]
  obtain r where r: "extractListingData d c i = Inr r" by (elim exE)
  have "Suc i \<noteq> 0" by simp
  from Cons.IH [OF this] obtain rs where rs: "mapCards d (Suc i) cs = Inr rs"
    "length rs = length cs"
    "\<forall>k<length cs. extractListingData d (cs ! k) (Suc i + k) = Inr (rs ! k)"
    by (elim exE conjE)
  show ?case by (rule exI [of _ "r # rs"]) (rule mapCards_step [OF r rs])
qed

lemma mapCards_first:
  assumes "outerHTML d c = Inr html"
  shows "\<exists>rs. mapCards d 0 (c # cs) = Inr rs \<and> length rs = length (c # cs)
     \<and> (\<forall>k<length (c # cs). extractListingData d ((c # cs) ! k) k = Inr (rs ! k))"
proof -
  from assms obtain r where r: "extractListingData d c 0 = Inr r"
    by (simp add: extractListingData_def)
  have "Suc 0 \<noteq> 0" by simp
  from mapCards_later [OF this, of d cs] obtain rs where rs: "mapCards d (Suc 0) cs = Inr rs"
    "length rs = length cs"
    "\<forall>k<length cs. extractListingData d (cs ! k) (Suc 0 + k) = Inr (rs ! k)"
    by (elim exE conjE)
  from mapCards_step [OF r rs, unfolded add_0]
  show ?thesis by (rule exI [of _ "r # rs"])
qed

lemma mapCards_date:
  "mapCards d i cs = Inr rs \<Longrightarrow> r \<in> set rs \<Longrightarrow> date r = extractDate d c"
proof (induction cs arbitrary: i rs)
  case Nil
  then show ?case by simp
next
  case (Cons x xs)
  from Cons.prems(1) obtain y ys where y: "extractListingData d x i = Inr y"
    and ys: "mapCards d (i + 1) xs = Inr ys" and rs: "rs = y # ys"
    by (auto split: sum.splits)
  from extractListingData_fields [OF y] have "date y = extractDate d x" by simp
  then have "date y = extractDate d c" by (simp add: extractDate_def extractDate_body_def)
  moreover have "date r = extractDate d c" if "r \<in> set ys"
    using Cons.IH [OF ys that] .
  ultimately show ?case using Cons.prems(2) rs by auto
qed

lemma run_success_mapCards:
  "extractAndSendListingData d name = Success records n \<Longrightarrow>
     \<exists>cards. mapCards d 0 cards = Inr records"
  unfolding extractAndSendListingData_def handleNoListingsFound_def caught_def
  by (auto split: sum.splits if_splits option.splits)

lemma handleNoListingsFound_ok:
  "doc_querySelector d ''main'' = Inr None
     \<or> (\<exists>area html. doc_querySelector d ''main'' = Inr (Some area) \<and> innerHTML d area = Inr html)
   \<Longrightarrow> handleNoListingsFound d =
         Inr (Failure (js ''No listing cards found. Please refresh the page and try again.''))"
  unfolding handleNoListingsFound_def by (elim disjE exE conjE) simp_all

lemma handleNoListingsFound_cases:
  "(\<exists>err. handleNoListingsFound d = Inl err)
   \<or> handleNoListingsFound d =
         Inr (Failure (js ''No listing cards found. Please refresh the page and try again.''))"
  unfolding handleNoListingsFound_def by (simp split: sum.splits option.splits)

section \<open>Properties of the field extractors\<close>

lemma priceScan_find:
  "\<forall>e\<in>set els. textContent d e = Inr (textOf e) \<Longrightarrow>
     priceScan d els =
       Inr (case find (\<lambda>e. js_includes (textOf e) euro \<or> js_includes (textOf e) (js ''$'')) els of
              None \<Rightarrow> []
            | Some e \<Rightarrow> trim (textOf e))"
proof (induction els)
  case Nil
  show ?case by simp
next
  case (Cons e els)
  have ne: "textOf e \<noteq> []"
    if "js_includes (textOf e) euro \<or> js_includes (textOf e) (js ''$'')"
    using that by (auto simp: euro_def js_def)
  from Cons.prems have e: "textContent d e = Inr (textOf e)" by simp
  from Cons.prems have "\<forall>e\<in>set els. textContent d e = Inr (textOf e)" by simp
  from Cons.IH [OF this] e ne show ?case by auto
qed

lemma price_example_gesamt:
  "stripLabel (js ''Insgesamt'') (stripLabel (js ''Gesamtpreis:'')
      (trim (js ''Gesamtpreis: '' @ euro @ js ''540''))) = euro @ js ''540''"
  by (simp add: stripLabel_def js_def euro_def trim_def is_ws_def)

lemma price_example_total:
  "stripLabel (js ''Insgesamt'') (stripLabel (js ''Gesamtpreis:'')
      (trim (js ''Total: '' @ euro @ js ''540''))) = js ''Total: '' @ euro @ js ''540''"
  by (simp add: stripLabel_def js_def euro_def trim_def is_ws_def)

lemma extractPrice_element:
  \<open>querySelector d c ''._tt122m, [class*='price'], [class*='total']'' = Inr (Some el)
     \<Longrightarrow> textContent d el = Inr text
     \<Longrightarrow> extractPrice d c =
           stripLabel (js ''Insgesamt'') (stripLabel (js ''Gesamtpreis:'') (trim text))\<close>
  by (simp add: extractPrice_def extractPrice_body_def catchEmpty_def)

lemma extractPrice_fallback:
  \<open>querySelector d c ''._tt122m, [class*='price'], [class*='total']'' = Inr None
     \<Longrightarrow> querySelectorAll d c ''div, span'' = Inr els
     \<Longrightarrow> \<forall>e\<in>set els. textContent d e = Inr (textOf e)
     \<Longrightarrow> extractPrice d c =
           (case find (\<lambda>e. js_includes (textOf e) euro \<or> js_includes (textOf e) (js ''$'')) els of
              None \<Rightarrow> []
            | Some e \<Rightarrow> trim (textOf e))\<close>
  using priceScan_find [of els d textOf]
  by (simp add: extractPrice_def extractPrice_body_def catchEmpty_def)

lemma extractLink_none:
  \<open>querySelector d c ''a[href*="/rooms/"]'' = Inr None \<Longrightarrow> extractLink d c = []\<close>
  by (simp add: extractLink_def extractLink_body_def catchEmpty_def)

lemma extractLink_href:
  assumes \<open>querySelector d c ''a[href*="/rooms/"]'' = Inr (Some a)\<close>
    and "getAttribute d a ''href'' = Inr (Some href)"
    and "js_includes href (js ''/rooms/'')"
  shows "extractLink d c =
           (case roomMatch href of
              Some rid \<Rightarrow> js ''https://www.airbnb.com/rooms/'' @ rid
            | None \<Rightarrow> js ''https://www.airbnb.com'' @ takeWhile (\<lambda>c. c \<noteq> 63) href)"
proof -
  have "href \<noteq> []" using assms(3) by (auto simp: js_def)
  then show ?thesis
    using assms(1,2)
    by (simp add: extractLink_def extractLink_body_def catchEmpty_def split: option.splits)
qed

lemma roomIdOfCard_ok:
  assumes \<open>querySelector d c ''a[href*="/rooms/"]'' = Inr None
     \<or> (\<exists>a href. querySelector d c ''a[href*="/rooms/"]'' = Inr (Some a)
           \<and> getAttribute d a ''href'' = Inr (Some href))\<close>
  shows "\<exists>rid. roomIdOfCard d c = Inr rid"
  using assms unfolding roomIdOfCard_def
  by (elim disjE exE conjE) (simp_all split: option.splits)

lemma extractComment_after_roomId:
  assumes "roomIdOfCard d c = Inr rid"
  shows "extractComment d c = siblingComment d c"
  unfolding extractComment_def extractComment_body_def siblingComment_def commentOfDiv_def
    catchEmpty_def
  using assms by (auto split: sum.splits option.splits bool.splits)

lemma siblingComment_cong:
  assumes "nextElementSibling d c = nextElementSibling d' c'"
    and "\<forall>n. classList_contains d n ''cpj3fk1'' = classList_contains d' n ''cpj3fk1''"
    and "\<forall>n. querySelector d n ''div.nzkbe2g'' = querySelector d' n ''div.nzkbe2g''"
    and "\<forall>e. textContent d e = textContent d' e"
  shows "siblingComment d c = siblingComment d' c'"
  unfolding siblingComment_def using assms
  by (simp cong: sum.case_cong option.case_cong bool.case_cong)

section \<open>Claims about the Similarity Matcher\<close>

text \<open>
  Claim C3. For every pair of strings, \<open>areStringSimilar\<close> answers true when either
  string contains the other; otherwise false when the lengths differ by more than 3;
  otherwise it counts the positions below the shorter length at which the two strings
  carry the same character, and answers true exactly when that count divided by the
  longer length is at least 0.8. The right-hand side states the contract with no
  reference to the code: containment as a decomposition of the string, the count as the
  size of the set of agreeing positions.
\<close>

theorem areStringSimilar_contract:
  "areStringSimilar a b =
     (if (\<exists>p q. a = p @ b @ q) \<or> (\<exists>p q. b = p @ a @ q) then True
      else if \<bar>int (length a) - int (length b)\<bar> > 3 then False
      else rat_of_nat (card {i. i < min (length a) (length b) \<and> a ! i = b ! i})
             / rat_of_nat (max (length a) (length b)) \<ge> 0.8)"
  by (simp add: areStringSimilar_def js_includes_iff matchLoop_count)

text \<open>
  Claim C4, as stated: \<open>areStringSimilar\<close> answers false on "ab" and "abcdefg". It
  answers true: "abcdefg" contains "ab", and the containment test comes first.
\<close>

theorem areStringSimilar_ab_abcdefg_not_false:
  "areStringSimilar (js ''ab'') (js ''abcdefg'') \<noteq> False"
  by (simp add: areStringSimilar_def js_def)

text \<open>
  Claim C4, amended: on "ab" and "abcdefg" the answer is true, because the second
  string contains the first and containment is tested before the lengths are compared.
  The length rule gives false on a pair with the same two lengths in which neither string
  contains the other, such as "xb" and "abcdefg".
\<close>

theorem areStringSimilar_ab_abcdefg:
  "areStringSimilar (js ''ab'') (js ''abcdefg'') = True
   \<and> js_includes (js ''abcdefg'') (js ''ab'')
   \<and> \<bar>int (length (js ''ab'')) - int (length (js ''abcdefg''))\<bar> > 3
   \<and> areStringSimilar (js ''xb'') (js ''abcdefg'') = False"
  by (simp add: areStringSimilar_def js_def)

section \<open>Claims about the bed-info heuristic\<close>

lemma dedupBedText_doubled: "dedupBedText (s @ s) = trim s"
  by (simp add: dedupBedText_def Let_def)

text \<open>
  Claim C5, as stated: a text of even length is cut into two equal halves, and the first
  half is kept exactly when the halves are identical or similar; otherwise the full text
  is kept. The text "2 beds  2 beds" (two spaces in the middle) has even length, its
  halves "2 beds " and " 2 beds" are neither identical nor similar, and yet the heuristic
  does not keep the full text: it trims the halves before it compares them, and returns
  the trimmed first half.
\<close>

theorem dedupBedText_raw_halves_counterexample:
  "length (js ''2 beds  2 beds'') mod 2 = 0
   \<and> take 7 (js ''2 beds  2 beds'') \<noteq> drop 7 (js ''2 beds  2 beds'')
   \<and> \<not> areStringSimilar (take 7 (js ''2 beds  2 beds'')) (drop 7 (js ''2 beds  2 beds''))
   \<and> dedupBedText (js ''2 beds  2 beds'') \<noteq> js ''2 beds  2 beds''
   \<and> dedupBedText (js ''2 beds  2 beds'') = js ''2 beds''"
  by (simp add: dedupBedText_def js_def trim_def is_ws_def Let_def areStringSimilar_def
      matchLoop.simps)

text \<open>
  Claim C5, amended: a text of even length is cut into two equal halves and each half is
  trimmed; the trimmed first half is kept exactly when the trimmed halves are identical
  or the Similarity Matcher judges them similar, otherwise the full text is kept; a text
  of odd length is never cut. A text that is some string written twice comes out as that
  string, trimmed. "2 beds2 beds" gives "2 beds"; "3 bedrooms" and "1 bed2 baths" come
  out unchanged.
\<close>

theorem dedupBedText_contract:
  "dedupBedText t =
     (if length t mod 2 = 0
      then (if trim (take (length t div 2) t) = trim (drop (length t div 2) t)
               \<or> areStringSimilar (trim (take (length t div 2) t)) (trim (drop (length t div 2) t))
            then trim (take (length t div 2) t)
            else t)
      else t)
   \<and> dedupBedText (s @ s) = trim s
   \<and> dedupBedText (js ''2 beds2 beds'') = js ''2 beds''
   \<and> dedupBedText (js ''3 bedrooms'') = js ''3 bedrooms''
   \<and> dedupBedText (js ''1 bed2 baths'') = js ''1 bed2 baths''"
proof -
  have a: "dedupBedText (js ''2 beds2 beds'') = js ''2 beds''"
    by (simp add: dedupBedText_def js_def trim_def is_ws_def Let_def areStringSimilar_def
        matchLoop.simps)
  have b: "dedupBedText (js ''3 bedrooms'') = js ''3 bedrooms''"
    by (simp add: dedupBedText_def js_def trim_def is_ws_def Let_def areStringSimilar_def
        matchLoop.simps)
  have c: "dedupBedText (js ''1 bed2 baths'') = js ''1 bed2 baths''"
    by (simp add: dedupBedText_def js_def trim_def is_ws_def Let_def areStringSimilar_def
        matchLoop.simps)
  show ?thesis
    using a b c dedupBedText_doubled [of s] by (simp add: dedupBedText_def Let_def)
qed

section \<open>Claims about the Card Locator and the Listing Assembler\<close>

text \<open>
  Claim C1. On every page on which the Card Locator returns a non-empty list of cards,
  the run answers with a success that carries exactly one record per card, in the order
  of the cards. Each of the seven fields of the record at position \<open>k\<close> is what the body
  of its own extractor returns for card \<open>k\<close>, or the empty string when that body raises:
  no extractor's fault reaches another field, another card or the run. The page is
  arbitrary otherwise, so any DOM operation inside any extractor may raise on any card.
  The third premise is about the one DOM read of the assembler that stands outside the
  extractors: the \<open>outerHTML\<close> of the first card, read for the log.
\<close>

theorem one_record_per_card:
  assumes "findListingCards d = Inr cards" and "cards \<noteq> []"
    and "outerHTML d (hd cards) = Inr html"
  shows "\<exists>records. extractAndSendListingData d name = Success records name
     \<and> length records = length cards
     \<and> (\<forall>k<length cards.
          propertyName (records ! k) =
            (case extractPropertyName_body d (cards ! k) of Inl err \<Rightarrow> [] | Inr s \<Rightarrow> s)
          \<and> rating (records ! k) =
            (case extractRating_body d (cards ! k) of Inl err \<Rightarrow> [] | Inr s \<Rightarrow> s)
          \<and> date (records ! k) =
            (case extractDate_body d (cards ! k) of Inl err \<Rightarrow> [] | Inr s \<Rightarrow> s)
          \<and> beds (records ! k) =
            (case extractBedInfo_body d (cards ! k) of Inl err \<Rightarrow> [] | Inr s \<Rightarrow> s)
          \<and> totalPrice (records ! k) =
            (case extractPrice_body d (cards ! k) of Inl err \<Rightarrow> [] | Inr s \<Rightarrow> s)
          \<and> link (records ! k) =
            (case extractLink_body d (cards ! k) of Inl err \<Rightarrow> [] | Inr s \<Rightarrow> s)
          \<and> comment (records ! k) =
            (case extractComment_body d (cards ! k) of Inl err \<Rightarrow> [] | Inr s \<Rightarrow> s))"
proof -
  from assms(2) obtain c cs where cards: "cards = c # cs" by (cases cards) auto
  with assms(3) have "outerHTML d c = Inr html" by simp
  from mapCards_first [OF this, of cs] obtain rs where rs: "mapCards d 0 cards = Inr rs"
    "length rs = length cards"
    "\<forall>k<length cards. extractListingData d (cards ! k) k = Inr (rs ! k)"
    unfolding cards by (elim exE conjE)
  have run: "extractAndSendListingData d name = Success rs name"
    using assms(1) assms(2) rs(1) by (simp add: extractAndSendListingData_def)
  have "\<forall>k<length cards.
          propertyName (rs ! k) = catchEmpty (extractPropertyName_body d (cards ! k))
          \<and> rating (rs ! k) = catchEmpty (extractRating_body d (cards ! k))
          \<and> date (rs ! k) = catchEmpty (extractDate_body d (cards ! k))
          \<and> beds (rs ! k) = catchEmpty (extractBedInfo_body d (cards ! k))
          \<and> totalPrice (rs ! k) = catchEmpty (extractPrice_body d (cards ! k))
          \<and> link (rs ! k) = catchEmpty (extractLink_body d (cards ! k))
          \<and> comment (rs ! k) = catchEmpty (extractComment_body d (cards ! k))"
  proof (intro allI impI)
    fix k assume "k < length cards"
    with rs(3) have "extractListingData d (cards ! k) k = Inr (rs ! k)" by blast
    from extractListingData_fields [OF this]
    show "propertyName (rs ! k) = catchEmpty (extractPropertyName_body d (cards ! k))
          \<and> rating (rs ! k) = catchEmpty (extractRating_body d (cards ! k))
          \<and> date (rs ! k) = catchEmpty (extractDate_body d (cards ! k))
          \<and> beds (rs ! k) = catchEmpty (extractBedInfo_body d (cards ! k))
          \<and> totalPrice (rs ! k) = catchEmpty (extractPrice_body d (cards ! k))
          \<and> link (rs ! k) = catchEmpty (extractLink_body d (cards ! k))
          \<and> comment (rs ! k) = catchEmpty (extractComment_body d (cards ! k))"
      by (simp add: extractPropertyName_def extractRating_def extractDate_def
          extractBedInfo_def extractPrice_def extractLink_def extractComment_def)
  qed
  then have "extractAndSendListingData d name = Success rs name
     \<and> length rs = length cards
     \<and> (\<forall>k<length cards.
          propertyName (rs ! k) = catchEmpty (extractPropertyName_body d (cards ! k))
          \<and> rating (rs ! k) = catchEmpty (extractRating_body d (cards ! k))
          \<and> date (rs ! k) = catchEmpty (extractDate_body d (cards ! k))
          \<and> beds (rs ! k) = catchEmpty (extractBedInfo_body d (cards ! k))
          \<and> totalPrice (rs ! k) = catchEmpty (extractPrice_body d (cards ! k))
          \<and> link (rs ! k) = catchEmpty (extractLink_body d (cards ! k))
          \<and> comment (rs ! k) = catchEmpty (extractComment_body d (cards ! k)))"
    using run rs(2) by (intro conjI)
  then show ?thesis unfolding catchEmpty_def by (rule exI [of _ rs])
qed

theorem one_record_per_card_witness:
  "findListingCards wishlistPage = Inr [10, 20]
   \<and> extractPropertyName_body wishlistPage 20 = Inl (Fault (js ''node is detached''))
   \<and> (\<exists>records. extractAndSendListingData wishlistPage (js ''Summer'') = Success records (js ''Summer'')
        \<and> length records = 2
        \<and> propertyName (records ! 0) = js ''Cozy loft''
        \<and> propertyName (records ! 1) = []
        \<and> totalPrice (records ! 1) = js ''$300 total''
        \<and> link (records ! 1) = js ''https://www.airbnb.com/rooms/plus/abc'')"
proof -
  have ne: "[10, 20] \<noteq> ([] :: nat list)" by simp
  from one_record_per_card [OF wp_cards ne wp_outer, of "js ''Summer''"]
  obtain records where run: "extractAndSendListingData wishlistPage (js ''Summer'') = Success records (js ''Summer'')"
    and len: "length records = length [10 :: nat, 20]"
    and fields: "\<forall>k<length [10 :: nat, 20].
          propertyName (records ! k) =
            (case extractPropertyName_body wishlistPage ([10, 20] ! k) of Inl err \<Rightarrow> [] | Inr s \<Rightarrow> s)
          \<and> rating (records ! k) =
            (case extractRating_body wishlistPage ([10, 20] ! k) of Inl err \<Rightarrow> [] | Inr s \<Rightarrow> s)
          \<and> date (records ! k) =
            (case extractDate_body wishlistPage ([10, 20] ! k) of Inl err \<Rightarrow> [] | Inr s \<Rightarrow> s)
          \<and> beds (records ! k) =
            (case extractBedInfo_body wishlistPage ([10, 20] ! k) of Inl err \<Rightarrow> [] | Inr s \<Rightarrow> s)
          \<and> totalPrice (records ! k) =
            (case extractPrice_body wishlistPage ([10, 20] ! k) of Inl err \<Rightarrow> [] | Inr s \<Rightarrow> s)
          \<and> link (records ! k) =
            (case extractLink_body wishlistPage ([10, 20] ! k) of Inl err \<Rightarrow> [] | Inr s \<Rightarrow> s)
          \<and> comment (records ! k) =
            (case extractComment_body wishlistPage ([10, 20] ! k) of Inl err \<Rightarrow> [] | Inr s \<Rightarrow> s)"
    by (elim exE conjE)
  have k0: "(0::nat) < length [10 :: nat, 20]" and k1: "(1::nat) < length [10 :: nat, 20]"
    by simp_all
  note f0 = fields [rule_format, OF k0]
  note f1 = fields [rule_format, OF k1]
  have a: "propertyName (records ! 0) = js ''Cozy loft''" using f0 wp_name1 by simp
  have b: "propertyName (records ! 1) = []" using f1 wp_name2 by simp
  have c: "totalPrice (records ! 1) = js ''$300 total''" using f1 wp_price2 by simp
  have e: "link (records ! 1) = js ''https://www.airbnb.com/rooms/plus/abc''"
    using f1 wp_link2 by simp
  have l: "length records = 2" using len by simp
  from run l a b c e have "\<exists>records. extractAndSendListingData wishlistPage (js ''Summer'') = Success records (js ''Summer'')
        \<and> length records = 2
        \<and> propertyName (records ! 0) = js ''Cozy loft''
        \<and> propertyName (records ! 1) = []
        \<and> totalPrice (records ! 1) = js ''$300 total''
        \<and> link (records ! 1) = js ''https://www.airbnb.com/rooms/plus/abc''"
    by (intro exI [of _ records] conjI)
  with wp_cards wp_name2 show ?thesis by (intro conjI)
qed

text \<open>
  Claim C2. The Card Locator has a fixed list of five selectors. If the selector at
  position \<open>i\<close> matches the elements \<open>els\<close>, at least one, and every selector before it
  matches none, the locator returns exactly \<open>els\<close>; the selectors after it are not
  consulted. If no selector matches anything, it returns the empty list, and no error.
\<close>

theorem findListingCards_first_match:
  "length selectors = 5
   \<and> (i < length selectors
        \<and> (\<forall>j<i. doc_querySelectorAll d (selectors ! j) = Inr [])
        \<and> doc_querySelectorAll d (selectors ! i) = Inr els \<and> els \<noteq> []
       \<longrightarrow> findListingCards d = Inr els)
   \<and> ((\<forall>j<length selectors. doc_querySelectorAll d (selectors ! j) = Inr [])
       \<longrightarrow> findListingCards d = Inr [])"
proof (intro conjI impI)
  show "length selectors = 5" by (simp add: selectors_def)
  show "findListingCards d = Inr els"
    if "i < length selectors
        \<and> (\<forall>j<i. doc_querySelectorAll d (selectors ! j) = Inr [])
        \<and> doc_querySelectorAll d (selectors ! i) = Inr els \<and> els \<noteq> []"
    unfolding findListingCards_def using that by (intro findLoop_first [of i]) simp_all
  show "findListingCards d = Inr []"
    if "\<forall>j<length selectors. doc_querySelectorAll d (selectors ! j) = Inr []"
    unfolding findListingCards_def using that by (rule findLoop_none)
qed

theorem findListingCards_first_match_witness:
  "doc_querySelectorAll wishlistPage (selectors ! 0) = Inr []
   \<and> doc_querySelectorAll wishlistPage (selectors ! 1) = Inr [10, 20]
   \<and> doc_querySelectorAll wishlistPage (selectors ! 4) = Inr [10, 20]
   \<and> findListingCards wishlistPage = Inr [10, 20]
   \<and> findListingCards emptyPage = Inr []"
proof -
  have s0: "doc_querySelectorAll wishlistPage (selectors ! 0) = Inr []"
    by (simp add: selectors_def wishlistPage_def)
  have s1: "doc_querySelectorAll wishlistPage (selectors ! 1) = Inr [10, 20]"
    by (simp add: selectors_def wishlistPage_def)
  have s4: "doc_querySelectorAll wishlistPage (selectors ! 4) = Inr [10, 20]"
    by (simp add: selectors_def wishlistPage_def)
  have before: "\<forall>j<1. doc_querySelectorAll wishlistPage (selectors ! j) = Inr []"
    using s0 by simp
  have i: "1 < length selectors" by (simp add: selectors_def)
  have ne: "[10, 20] \<noteq> ([] :: nat list)" by simp
  have none: "\<forall>j<length selectors. doc_querySelectorAll emptyPage (selectors ! j) = Inr []"
    by (simp add: emptyPage_def)
  note t = findListingCards_first_match [of 1 wishlistPage "[10, 20]"]
  note u = findListingCards_first_match [of 0 emptyPage "[]"]
  have a: "findListingCards wishlistPage = Inr [10, 20]"
    by (rule t [THEN conjunct2, THEN conjunct1, THEN mp]) (intro conjI i before s1 ne)
  have b: "findListingCards emptyPage = Inr []"
    by (rule u [THEN conjunct2, THEN conjunct2, THEN mp]) (rule none)
  from s0 s1 s4 a b show ?thesis by (intro conjI)
qed

text \<open>
  Claim C6. Whenever the Card Locator returns no card, the run answers with a failure:
  no success flag, no data, never a raised error. Its message is the text "No listing
  cards found. Please refresh the page and try again." whenever the two DOM reads that
  \<open>handleNoListingsFound\<close> makes for the log (the \<open>main\<close> element and its
  \<open>innerHTML\<close>) return; were one of them to raise, the failure would carry the raised
  message instead.
\<close>

theorem no_cards_failure:
  assumes "findListingCards d = Inr []"
  shows "(\<exists>msg. extractAndSendListingData d name = Failure msg)
     \<and> \<not> success (extractAndSendListingData d name)
     \<and> (doc_querySelector d ''main'' = Inr None
          \<or> (\<exists>area html. doc_querySelector d ''main'' = Inr (Some area)
                \<and> innerHTML d area = Inr html)
         \<longrightarrow> extractAndSendListingData d name =
               Failure (js ''No listing cards found. Please refresh the page and try again.''))"
proof -
  have run: "extractAndSendListingData d name =
               (case handleNoListingsFound d of Inl err \<Rightarrow> caught err | Inr r \<Rightarrow> r)"
    using assms by (simp add: extractAndSendListingData_def)
  have f: "\<exists>msg. extractAndSendListingData d name = Failure msg"
    using handleNoListingsFound_cases [of d] unfolding run caught_def by (elim disjE exE) simp_all
  then have s: "\<not> success (extractAndSendListingData d name)"
    by (elim exE) (simp add: success_def)
  have m: "extractAndSendListingData d name =
             Failure (js ''No listing cards found. Please refresh the page and try again.'')"
    if "doc_querySelector d ''main'' = Inr None
          \<or> (\<exists>area html. doc_querySelector d ''main'' = Inr (Some area)
                \<and> innerHTML d area = Inr html)"
    unfolding run using handleNoListingsFound_ok [OF that] by simp
  from f s m show ?thesis by (intro conjI impI)
qed

theorem no_cards_failure_witness:
  "findListingCards emptyPage = Inr []
   \<and> doc_querySelector emptyPage ''main'' = Inr (Some 5)
   \<and> innerHTML emptyPage 5 = Inr (js ''<h1>My trips</h1>'')
   \<and> extractAndSendListingData emptyPage (js ''My trips'') =
        Failure (js ''No listing cards found. Please refresh the page and try again.'')
   \<and> \<not> success (extractAndSendListingData emptyPage (js ''My trips''))"
proof -
  have q: "doc_querySelector emptyPage ''main'' = Inr (Some 5)" by (simp add: emptyPage_def)
  have h: "innerHTML emptyPage 5 = Inr (js ''<h1>My trips</h1>'')" by (simp add: emptyPage_def)
  note t = no_cards_failure [OF ep_cards, of "js ''My trips''"]
  have pre: "doc_querySelector emptyPage ''main'' = Inr None
          \<or> (\<exists>area html. doc_querySelector emptyPage ''main'' = Inr (Some area)
                \<and> innerHTML emptyPage area = Inr html)"
    using q h by (intro disjI2 exI conjI)
  from t [THEN conjunct2, THEN conjunct2, THEN mp, OF pre] t [THEN conjunct2, THEN conjunct1]
    ep_cards q h
  show ?thesis by (intro conjI)
qed

text \<open>
  Claim C9. The date extractor does not depend on its card: it asks the document for
  \<open>button.c12tvzjc\<close>, so it returns the same string for any two cards of one page, and
  every record of a successful run carries that one date.
\<close>

theorem extractDate_ignores_card:
  "extractDate d c1 = extractDate d c2
   \<and> (\<forall>records n. extractAndSendListingData d name = Success records n
        \<longrightarrow> (\<forall>r \<in> set records. date r = extractDate d c1))"
proof (intro conjI allI impI ballI)
  show "extractDate d c1 = extractDate d c2"
    by (simp add: extractDate_def extractDate_body_def)
next
  fix records n r
  assume "extractAndSendListingData d name = Success records n" and r: "r \<in> set records"
  from run_success_mapCards [OF this(1)] obtain cards where "mapCards d 0 cards = Inr records"
    by (elim exE)
  from mapCards_date [OF this r] show "date r = extractDate d c1" .
qed

theorem extractDate_ignores_card_witness:
  "extractDate wishlistPage 10 = extractDate wishlistPage 20
   \<and> length (data (extractAndSendListingData wishlistPage (js ''Summer''))) = 2
   \<and> date (data (extractAndSendListingData wishlistPage (js ''Summer'')) ! 0) = js ''May 12 - 15''
   \<and> date (data (extractAndSendListingData wishlistPage (js ''Summer'')) ! 1) = js ''May 12 - 15''"
proof -
  note t = extractDate_ignores_card [of wishlistPage 10 20 "js ''Summer''"]
  note all = t [THEN conjunct2, rule_format, OF wp_run]
  have d: "extractDate wishlistPage 10 = js ''May 12 - 15''"
    by (simp add: extractDate_def catchEmpty_def wp_date)
  have a: "date (data (extractAndSendListingData wishlistPage (js ''Summer'')) ! 0)
             = extractDate wishlistPage 10"
    by (rule all) (simp add: wp_run)
  have b: "date (data (extractAndSendListingData wishlistPage (js ''Summer'')) ! 1)
             = extractDate wishlistPage 10"
    by (rule all) (simp add: wp_run)
  have l: "length (data (extractAndSendListingData wishlistPage (js ''Summer''))) = 2"
    by (simp add: wp_run)
  from t [THEN conjunct1] l a b d show ?thesis by simp
qed

section \<open>Claims about the price, link and comment extractors\<close>

text \<open>
  Claim C7, as stated: the price extractor strips the leading labels "Total:",
  "Gesamtpreis:" and "Insgesamt". On a card whose price element reads "Total: " followed
  by the euro sign and "540" it returns that text unchanged: the script has replacements
  for "Gesamtpreis:" and for "Insgesamt" only.
\<close>

theorem extractPrice_total_not_stripped:
  \<open>querySelector totalPage 0 ''._tt122m, [class*='price'], [class*='total']'' = Inr (Some 7)
   \<and> textContent totalPage 7 = Inr (js ''Total: '' @ euro @ js ''540'')
   \<and> extractPrice totalPage 0 = js ''Total: '' @ euro @ js ''540''
   \<and> extractPrice totalPage 0 \<noteq> euro @ js ''540''\<close>
proof -
  have q: \<open>querySelector totalPage 0 ''._tt122m, [class*='price'], [class*='total']'' = Inr (Some 7)\<close>
    by (simp add: totalPage_def)
  have t: "textContent totalPage 7 = Inr (js ''Total: '' @ euro @ js ''540'')"
    by (simp add: totalPage_def)
  have v: "extractPrice totalPage 0 = js ''Total: '' @ euro @ js ''540''"
    using extractPrice_element [OF q t] price_example_total by simp
  have "js ''Total: '' @ euro @ js ''540'' \<noteq> euro @ js ''540''"
    by (simp add: js_def euro_def)
  with q t v show ?thesis by simp
qed

text \<open>
  Claim C7, amended. When the selector \<open>._tt122m, [class*='price'], [class*='total']\<close>
  finds an element in the card, the price is the trimmed text of that element with a
  leading "Gesamtpreis:" removed and then a leading "Insgesamt" removed, each together
  with the white space that follows it; a text that does not start with a label is left
  as it is, so "Gesamtpreis: " with the euro sign and "540" gives the euro sign and
  "540", and a leading "Total:" stays. When the selector finds nothing, the price is the
  trimmed text of the first \<open>div\<close> or \<open>span\<close> of the card whose text holds a euro or a
  dollar sign, and the empty string when there is none.
\<close>

theorem extractPrice_labels:
  \<open>(querySelector d c ''._tt122m, [class*='price'], [class*='total']'' = Inr (Some el)
      \<and> textContent d el = Inr text
     \<longrightarrow> extractPrice d c =
           stripLabel (js ''Insgesamt'') (stripLabel (js ''Gesamtpreis:'') (trim text)))
   \<and> (querySelector d c ''._tt122m, [class*='price'], [class*='total']'' = Inr None
      \<and> querySelectorAll d c ''div, span'' = Inr els
      \<and> (\<forall>e\<in>set els. textContent d e = Inr (textOf e))
     \<longrightarrow> extractPrice d c =
           (case find (\<lambda>e. js_includes (textOf e) euro \<or> js_includes (textOf e) (js ''$'')) els of
              None \<Rightarrow> []
            | Some e \<Rightarrow> trim (textOf e)))
   \<and> ((\<forall>ch\<in>set ws. is_ws ch) \<and> (rest = [] \<or> \<not> is_ws (hd rest))
     \<longrightarrow> stripLabel label (label @ ws @ rest) = rest)
   \<and> (\<not> prefix label s \<longrightarrow> stripLabel label s = s)
   \<and> stripLabel (js ''Insgesamt'') (stripLabel (js ''Gesamtpreis:'')
        (trim (js ''Gesamtpreis: '' @ euro @ js ''540''))) = euro @ js ''540''
   \<and> stripLabel (js ''Insgesamt'') (stripLabel (js ''Gesamtpreis:'')
        (trim (js ''Total: '' @ euro @ js ''540''))) = js ''Total: '' @ euro @ js ''540''\<close>
proof (intro conjI impI)
  show "stripLabel label (label @ ws @ rest) = rest"
    if "(\<forall>ch\<in>set ws. is_ws ch) \<and> (rest = [] \<or> \<not> is_ws (hd rest))"
    using that by (elim conjE) (rule stripLabel_present)
  show "stripLabel label s = s" if "\<not> prefix label s"
    using that by (rule stripLabel_absent)
  show \<open>extractPrice d c =
           stripLabel (js ''Insgesamt'') (stripLabel (js ''Gesamtpreis:'') (trim text))\<close>
    if \<open>querySelector d c ''._tt122m, [class*='price'], [class*='total']'' = Inr (Some el)
      \<and> textContent d el = Inr text\<close>
    using that by (elim conjE) (rule extractPrice_element)
  show \<open>extractPrice d c =
           (case find (\<lambda>e. js_includes (textOf e) euro \<or> js_includes (textOf e) (js ''$'')) els of
              None \<Rightarrow> []
            | Some e \<Rightarrow> trim (textOf e))\<close>
    if \<open>querySelector d c ''._tt122m, [class*='price'], [class*='total']'' = Inr None
      \<and> querySelectorAll d c ''div, span'' = Inr els
      \<and> (\<forall>e\<in>set els. textContent d e = Inr (textOf e))\<close>
    using that by (elim conjE) (rule extractPrice_fallback)
qed (rule price_example_gesamt price_example_total)+

theorem extractPrice_labels_witness:
  \<open>querySelector wishlistPage 10 ''._tt122m, [class*='price'], [class*='total']'' = Inr (Some 14)
   \<and> textContent wishlistPage 14 = Inr (js ''Gesamtpreis: '' @ euro @ js ''540'')
   \<and> extractPrice wishlistPage 10 = euro @ js ''540''
   \<and> querySelector wishlistPage 20 ''._tt122m, [class*='price'], [class*='total']'' = Inr None
   \<and> querySelectorAll wishlistPage 20 ''div, span'' = Inr [22, 23]
   \<and> textContent wishlistPage 22 = Inr (js ''Villa'')
   \<and> textContent wishlistPage 23 = Inr (js '' $300 total'')
   \<and> extractPrice wishlistPage 20 = js ''$300 total''
   \<and> stripLabel (js ''Insgesamt'') (js ''Insgesamt  540'') = js ''540''
   \<and> stripLabel (js ''Insgesamt'') (js ''ab 540'') = js ''ab 540''\<close>
proof -
  have q1: \<open>querySelector wishlistPage 10 ''._tt122m, [class*='price'], [class*='total']'' = Inr (Some 14)\<close>
    by (simp add: wishlistPage_def)
  have t1: "textContent wishlistPage 14 = Inr (js ''Gesamtpreis: '' @ euro @ js ''540'')"
    by (simp add: wishlistPage_def)
  note thm1 = extractPrice_labels [of wishlistPage 10 14 "js ''Gesamtpreis: '' @ euro @ js ''540''"]
  have v1: "extractPrice wishlistPage 10 = euro @ js ''540''"
    using thm1 [THEN conjunct1, THEN mp, OF conjI [OF q1 t1]]
      thm1 [THEN conjunct2, THEN conjunct2, THEN conjunct2, THEN conjunct2, THEN conjunct1]
    by simp
  have q2: \<open>querySelector wishlistPage 20 ''._tt122m, [class*='price'], [class*='total']'' = Inr None\<close>
    by (simp add: wishlistPage_def)
  have a2: "querySelectorAll wishlistPage 20 ''div, span'' = Inr [22, 23]"
    by (simp add: wishlistPage_def)
  have t22: "textContent wishlistPage 22 = Inr (js ''Villa'')"
    by (simp add: wishlistPage_def)
  have t23: "textContent wishlistPage 23 = Inr (js '' $300 total'')"
    by (simp add: wishlistPage_def)
  define textOf :: "nat \<Rightarrow> jsstring"
    where "textOf = (\<lambda>e. if e = 22 then js ''Villa'' else js '' $300 total'')"
  have all: "\<forall>e\<in>set [22, 23]. textContent wishlistPage e = Inr (textOf e)"
    using t22 t23 by (simp add: textOf_def)
  note thm2 = extractPrice_labels [of wishlistPage 20 0 "[]" "[22, 23]" textOf]
  have "extractPrice wishlistPage 20 =
          (case find (\<lambda>e. js_includes (textOf e) euro \<or> js_includes (textOf e) (js ''$'')) [22, 23] of
             None \<Rightarrow> []
           | Some e \<Rightarrow> trim (textOf e))"
    by (rule thm2 [THEN conjunct2, THEN conjunct1, THEN mp]) (intro conjI q2 a2 all)
  then have v2: "extractPrice wishlistPage 20 = js ''$300 total''"
    by (simp add: textOf_def js_def euro_def trim_def is_ws_def)
  have ws: "\<forall>ch\<in>set (js ''  ''). is_ws ch" by (simp add: js_def is_ws_def)
  have stop: "js ''540'' = [] \<or> \<not> is_ws (hd (js ''540''))" by (simp add: js_def is_ws_def)
  have "stripLabel (js ''Insgesamt'') (js ''Insgesamt'' @ js ''  '' @ js ''540'') = js ''540''"
    by (rule extractPrice_labels [of wishlistPage 10 14 "[]" "[]" textOf "js ''  ''" "js ''540''",
        THEN conjunct2, THEN conjunct2, THEN conjunct1, THEN mp]) (intro conjI ws stop)
  then have s1: "stripLabel (js ''Insgesamt'') (js ''Insgesamt  540'') = js ''540''"
    by (simp add: js_def)
  have np: "\<not> prefix (js ''Insgesamt'') (js ''ab 540'')" by (simp add: js_def)
  have s2: "stripLabel (js ''Insgesamt'') (js ''ab 540'') = js ''ab 540''"
    by (rule extractPrice_labels [of wishlistPage 10 14 "[]" "[]" textOf "[]" "[]"
          "js ''Insgesamt''" "js ''ab 540''",
        THEN conjunct2, THEN conjunct2, THEN conjunct2, THEN conjunct1, THEN mp]) (rule np)
  from q1 t1 v1 q2 a2 t22 t23 v2 s1 s2 show ?thesis by (intro conjI)
qed

text \<open>
  Claim C8. With no anchor \<open>a[href*="/rooms/"]\<close> in the card the link is the empty
  string. With such an anchor, whose \<open>href\<close> therefore contains "/rooms/": if some
  "/rooms/" in the \<open>href\<close> is followed by a digit, the link is
  "https://www.airbnb.com/rooms/" followed by the listing id, the full run of digits after
  the leftmost such "/rooms/", and by nothing else; otherwise the link is
  "https://www.airbnb.com" followed by the \<open>href\<close> up to its first question mark (code
  unit 63).
\<close>

theorem extractLink_canonical:
  \<open>(querySelector d c ''a[href*="/rooms/"]'' = Inr None \<longrightarrow> extractLink d c = [])
   \<and> (querySelector d c ''a[href*="/rooms/"]'' = Inr (Some a)
        \<and> getAttribute d a ''href'' = Inr (Some href)
        \<and> js_includes href (js ''/rooms/'')
       \<longrightarrow> (if \<exists>p ch q. href = p @ js ''/rooms/'' @ ch # q \<and> is_digit ch
            then \<exists>p rid q. href = p @ js ''/rooms/'' @ rid @ q
                   \<and> rid \<noteq> [] \<and> (\<forall>ch\<in>set rid. is_digit ch)
                   \<and> (q = [] \<or> \<not> is_digit (hd q))
                   \<and> \<not> (\<exists>p' ch q'. length p' < length p
                           \<and> href = p' @ js ''/rooms/'' @ ch # q' \<and> is_digit ch)
                   \<and> extractLink d c = js ''https://www.airbnb.com/rooms/'' @ rid
            else \<exists>path rest. (href = path \<or> href = path @ 63 # rest) \<and> 63 \<notin> set path
                   \<and> extractLink d c = js ''https://www.airbnb.com'' @ path))\<close>
proof (intro conjI impI)
  assume \<open>querySelector d c ''a[href*="/rooms/"]'' = Inr None\<close>
  then show "extractLink d c = []" by (rule extractLink_none)
next
  assume \<open>querySelector d c ''a[href*="/rooms/"]'' = Inr (Some a)
        \<and> getAttribute d a ''href'' = Inr (Some href)
        \<and> js_includes href (js ''/rooms/'')\<close>
  then have link: "extractLink d c =
           (case roomMatch href of
              Some rid \<Rightarrow> js ''https://www.airbnb.com/rooms/'' @ rid
            | None \<Rightarrow> js ''https://www.airbnb.com'' @ takeWhile (\<lambda>c. c \<noteq> 63) href)"
    by (elim conjE) (rule extractLink_href)
  show "if \<exists>p ch q. href = p @ js ''/rooms/'' @ ch # q \<and> is_digit ch
            then \<exists>p rid q. href = p @ js ''/rooms/'' @ rid @ q
                   \<and> rid \<noteq> [] \<and> (\<forall>ch\<in>set rid. is_digit ch)
                   \<and> (q = [] \<or> \<not> is_digit (hd q))
                   \<and> \<not> (\<exists>p' ch q'. length p' < length p
                           \<and> href = p' @ js ''/rooms/'' @ ch # q' \<and> is_digit ch)
                   \<and> extractLink d c = js ''https://www.airbnb.com/rooms/'' @ rid
            else \<exists>path rest. (href = path \<or> href = path @ 63 # rest) \<and> 63 \<notin> set path
                   \<and> extractLink d c = js ''https://www.airbnb.com'' @ path"
  proof (cases "\<exists>p ch q. href = p @ js ''/rooms/'' @ ch # q \<and> is_digit ch")
    case True
    then have "roomMatch href \<noteq> None" unfolding roomMatch_None by simp
    then obtain rid where rid: "roomMatch href = Some rid" by auto
    from roomMatch_Some [OF rid] obtain p q where "href = p @ js ''/rooms/'' @ rid @ q"
      "rid \<noteq> []" "\<forall>ch\<in>set rid. is_digit ch" "q = [] \<or> \<not> is_digit (hd q)"
      "\<not> (\<exists>p' ch q'. length p' < length p
                           \<and> href = p' @ js ''/rooms/'' @ ch # q' \<and> is_digit ch)"
      by (elim exE conjE)
    moreover have "extractLink d c = js ''https://www.airbnb.com/rooms/'' @ rid"
      using link rid by simp
    ultimately have "\<exists>p rid q. href = p @ js ''/rooms/'' @ rid @ q
                   \<and> rid \<noteq> [] \<and> (\<forall>ch\<in>set rid. is_digit ch)
                   \<and> (q = [] \<or> \<not> is_digit (hd q))
                   \<and> \<not> (\<exists>p' ch q'. length p' < length p
                           \<and> href = p' @ js ''/rooms/'' @ ch # q' \<and> is_digit ch)
                   \<and> extractLink d c = js ''https://www.airbnb.com/rooms/'' @ rid"
      by (intro exI [of _ p] exI [of _ rid] exI [of _ q] conjI)
    with True show ?thesis by (simp only: if_True)
  next
    case False
    then have none: "roomMatch href = None" unfolding roomMatch_None by simp
    from split_question [of href] obtain path rest where
      "href = path \<or> href = path @ 63 # rest" "63 \<notin> set path"
      "takeWhile (\<lambda>c. c \<noteq> 63) href = path" by (elim exE conjE)
    moreover from this(3) have "extractLink d c = js ''https://www.airbnb.com'' @ path"
      using link none by simp
    ultimately have "\<exists>path rest. (href = path \<or> href = path @ 63 # rest) \<and> 63 \<notin> set path
                   \<and> extractLink d c = js ''https://www.airbnb.com'' @ path"
      by (intro exI [of _ path] exI [of _ rest] conjI)
    with False show ?thesis by (simp only: if_False)
  qed
qed

theorem extractLink_canonical_witness:
  \<open>querySelector wishlistPage 10 ''a[href*="/rooms/"]'' = Inr (Some 15)
   \<and> getAttribute wishlistPage 15 ''href'' = Inr (Some (js ''/rooms/12345678?source=wishlist''))
   \<and> (\<exists>p rid q. js ''/rooms/12345678?source=wishlist'' = p @ js ''/rooms/'' @ rid @ q
          \<and> (q = [] \<or> \<not> is_digit (hd q))
          \<and> extractLink wishlistPage 10 = js ''https://www.airbnb.com/rooms/'' @ rid)
   \<and> extractLink wishlistPage 10 = js ''https://www.airbnb.com/rooms/12345678''
   \<and> querySelector wishlistPage 20 ''a[href*="/rooms/"]'' = Inr (Some 25)
   \<and> getAttribute wishlistPage 25 ''href'' = Inr (Some (js ''/rooms/plus/abc?x=1''))
   \<and> (\<exists>path rest. js ''/rooms/plus/abc?x=1'' = path @ 63 # rest \<and> 63 \<notin> set path
          \<and> extractLink wishlistPage 20 = js ''https://www.airbnb.com'' @ path)
   \<and> extractLink wishlistPage 20 = js ''https://www.airbnb.com/rooms/plus/abc''
   \<and> querySelector emptyPage 0 ''a[href*="/rooms/"]'' = Inr None
   \<and> extractLink emptyPage 0 = []\<close>
proof -
  have q1: \<open>querySelector wishlistPage 10 ''a[href*="/rooms/"]'' = Inr (Some 15)\<close>
    by (simp add: wishlistPage_def)
  have g1: "getAttribute wishlistPage 15 ''href'' = Inr (Some (js ''/rooms/12345678?source=wishlist''))"
    by (simp add: wishlistPage_def)
  have i1: "js_includes (js ''/rooms/12345678?source=wishlist'') (js ''/rooms/'')"
    by (simp add: js_def)
  have n1: "\<exists>p ch q. js ''/rooms/12345678?source=wishlist'' = p @ js ''/rooms/'' @ ch # q \<and> is_digit ch"
    by (intro exI [of _ "[]"] exI [of _ 49] exI [of _ "js ''2345678?source=wishlist''"])
       (simp add: js_def is_digit_def)
  note t1 = extractLink_canonical [of wishlistPage 10 15 "js ''/rooms/12345678?source=wishlist''",
      THEN conjunct2, THEN mp, OF conjI [OF q1 conjI [OF g1 i1]]]
  from t1 n1 obtain p rid q where
    "js ''/rooms/12345678?source=wishlist'' = p @ js ''/rooms/'' @ rid @ q"
    "q = [] \<or> \<not> is_digit (hd q)"
    "extractLink wishlistPage 10 = js ''https://www.airbnb.com/rooms/'' @ rid"
    by (simp only: if_True) (elim exE conjE)
  then have a: "\<exists>p rid q. js ''/rooms/12345678?source=wishlist'' = p @ js ''/rooms/'' @ rid @ q
          \<and> (q = [] \<or> \<not> is_digit (hd q))
          \<and> extractLink wishlistPage 10 = js ''https://www.airbnb.com/rooms/'' @ rid"
    by (intro exI [of _ p] exI [of _ rid] exI [of _ q] conjI)
  have v1: "extractLink wishlistPage 10 = js ''https://www.airbnb.com/rooms/12345678''"
    by (simp add: extractLink_def catchEmpty_def wp_link1)
  have q2: \<open>querySelector wishlistPage 20 ''a[href*="/rooms/"]'' = Inr (Some 25)\<close>
    by (simp add: wishlistPage_def)
  have g2: "getAttribute wishlistPage 25 ''href'' = Inr (Some (js ''/rooms/plus/abc?x=1''))"
    by (simp add: wishlistPage_def)
  have i2: "js_includes (js ''/rooms/plus/abc?x=1'') (js ''/rooms/'')"
    by (simp add: js_def)
  have "roomMatch (js ''/rooms/plus/abc?x=1'') = None"
    by (simp add: js_def roomMatchAt_def is_digit_def)
  then have n2: "\<not> (\<exists>p ch q. js ''/rooms/plus/abc?x=1'' = p @ js ''/rooms/'' @ ch # q \<and> is_digit ch)"
    unfolding roomMatch_None .
  note t2 = extractLink_canonical [of wishlistPage 20 25 "js ''/rooms/plus/abc?x=1''",
      THEN conjunct2, THEN mp, OF conjI [OF q2 conjI [OF g2 i2]]]
  from t2 n2 obtain path rest where
    alt: "js ''/rooms/plus/abc?x=1'' = path \<or> js ''/rooms/plus/abc?x=1'' = path @ 63 # rest"
    and nq: "63 \<notin> set path"
    and l2: "extractLink wishlistPage 20 = js ''https://www.airbnb.com'' @ path"
    by (simp only: if_False) (elim exE conjE)
  have "63 \<in> set (js ''/rooms/plus/abc?x=1'')" by (simp add: js_def)
  with alt nq have "js ''/rooms/plus/abc?x=1'' = path @ 63 # rest" by auto
  with nq l2 have b: "\<exists>path rest. js ''/rooms/plus/abc?x=1'' = path @ 63 # rest \<and> 63 \<notin> set path
          \<and> extractLink wishlistPage 20 = js ''https://www.airbnb.com'' @ path"
    by (intro exI [of _ path] exI [of _ rest] conjI)
  have v2: "extractLink wishlistPage 20 = js ''https://www.airbnb.com/rooms/plus/abc''"
    by (simp add: extractLink_def catchEmpty_def wp_link2)
  have q3: \<open>querySelector emptyPage 0 ''a[href*="/rooms/"]'' = Inr None\<close>
    by (simp add: emptyPage_def)
  note v3 = extractLink_canonical [of emptyPage 0 0 "[]", THEN conjunct1, THEN mp, OF q3]
  from q1 g1 a v1 q2 g2 b v2 q3 v3 show ?thesis by (intro conjI)
qed

text \<open>
  Claim C10. The comment extractor computes the room id of the card's link anchor and
  never uses it. Whenever the anchor lookup behaves as the selector promises (no anchor,
  or an anchor that has an \<open>href\<close>), the comment is \<open>siblingComment\<close>: it depends only on
  the element that follows the card. So two cards, on one page or on two, whose anchors
  differ in any way but whose following siblings agree, get the same comment.
\<close>

theorem extractComment_ignores_link:
  \<open>(querySelector d c ''a[href*="/rooms/"]'' = Inr None
      \<or> (\<exists>a href. querySelector d c ''a[href*="/rooms/"]'' = Inr (Some a)
            \<and> getAttribute d a ''href'' = Inr (Some href))
     \<longrightarrow> extractComment d c = siblingComment d c)
   \<and> ((querySelector d c ''a[href*="/rooms/"]'' = Inr None
         \<or> (\<exists>a href. querySelector d c ''a[href*="/rooms/"]'' = Inr (Some a)
               \<and> getAttribute d a ''href'' = Inr (Some href)))
      \<and> (querySelector d' c' ''a[href*="/rooms/"]'' = Inr None
         \<or> (\<exists>a href. querySelector d' c' ''a[href*="/rooms/"]'' = Inr (Some a)
               \<and> getAttribute d' a ''href'' = Inr (Some href)))
      \<and> nextElementSibling d c = nextElementSibling d' c'
      \<and> (\<forall>n. classList_contains d n ''cpj3fk1'' = classList_contains d' n ''cpj3fk1'')
      \<and> (\<forall>n. querySelector d n ''div.nzkbe2g'' = querySelector d' n ''div.nzkbe2g'')
      \<and> (\<forall>e. textContent d e = textContent d' e)
     \<longrightarrow> extractComment d c = extractComment d' c')\<close>
proof (intro conjI impI)
  assume \<open>querySelector d c ''a[href*="/rooms/"]'' = Inr None
      \<or> (\<exists>a href. querySelector d c ''a[href*="/rooms/"]'' = Inr (Some a)
            \<and> getAttribute d a ''href'' = Inr (Some href))\<close>
  from roomIdOfCard_ok [OF this] obtain rid where "roomIdOfCard d c = Inr rid" by (elim exE)
  then show "extractComment d c = siblingComment d c" by (rule extractComment_after_roomId)
next
  assume a: \<open>(querySelector d c ''a[href*="/rooms/"]'' = Inr None
         \<or> (\<exists>a href. querySelector d c ''a[href*="/rooms/"]'' = Inr (Some a)
               \<and> getAttribute d a ''href'' = Inr (Some href)))
      \<and> (querySelector d' c' ''a[href*="/rooms/"]'' = Inr None
         \<or> (\<exists>a href. querySelector d' c' ''a[href*="/rooms/"]'' = Inr (Some a)
               \<and> getAttribute d' a ''href'' = Inr (Some href)))
      \<and> nextElementSibling d c = nextElementSibling d' c'
      \<and> (\<forall>n. classList_contains d n ''cpj3fk1'' = classList_contains d' n ''cpj3fk1'')
      \<and> (\<forall>n. querySelector d n ''div.nzkbe2g'' = querySelector d' n ''div.nzkbe2g'')
      \<and> (\<forall>e. textContent d e = textContent d' e)\<close>
  from a [THEN conjunct1, THEN roomIdOfCard_ok] obtain rid where "roomIdOfCard d c = Inr rid"
    by (elim exE)
  then have 1: "extractComment d c = siblingComment d c" by (rule extractComment_after_roomId)
  from a [THEN conjunct2, THEN conjunct1, THEN roomIdOfCard_ok]
  obtain rid' where "roomIdOfCard d' c' = Inr rid'" by (elim exE)
  then have 2: "extractComment d' c' = siblingComment d' c'" by (rule extractComment_after_roomId)
  have "siblingComment d c = siblingComment d' c'"
    using a by (intro siblingComment_cong) (elim conjE, assumption)+
  with 1 2 show "extractComment d c = extractComment d' c'" by simp
qed

theorem extractComment_ignores_link_witness:
  "roomIdOfCard wishlistPage 10 = Inr (js ''12345678'')
   \<and> roomIdOfCard wishlistPageRelinked 10 = Inr (js ''987'')
   \<and> extractComment wishlistPage 10 = siblingComment wishlistPage 10
   \<and> extractComment wishlistPage 10 = extractComment wishlistPageRelinked 10
   \<and> extractComment wishlistPage 10 = js ''Nice view''"
proof -
  have r1: "roomIdOfCard wishlistPage 10 = Inr (js ''12345678'')"
    by (simp add: roomIdOfCard_def wishlistPage_def js_def roomMatchAt_def is_digit_def)
  have r2: "roomIdOfCard wishlistPageRelinked 10 = Inr (js ''987'')"
    by (simp add: roomIdOfCard_def wishlistPageRelinked_def wishlistPage_def js_def
        roomMatchAt_def is_digit_def)
  have l1: \<open>querySelector wishlistPage 10 ''a[href*="/rooms/"]'' = Inr None
      \<or> (\<exists>a href. querySelector wishlistPage 10 ''a[href*="/rooms/"]'' = Inr (Some a)
            \<and> getAttribute wishlistPage a ''href'' = Inr (Some href))\<close>
    by (rule disjI2, rule exI [of _ 15], rule exI [of _ "js ''/rooms/12345678?source=wishlist''"])
       (simp add: wishlistPage_def)
  have l2: \<open>querySelector wishlistPageRelinked 10 ''a[href*="/rooms/"]'' = Inr None
      \<or> (\<exists>a href. querySelector wishlistPageRelinked 10 ''a[href*="/rooms/"]'' = Inr (Some a)
            \<and> getAttribute wishlistPageRelinked a ''href'' = Inr (Some href))\<close>
    by (rule disjI2, rule exI [of _ 15], rule exI [of _ "js ''/rooms/987?check_in=2025-05-12''"])
       (simp add: wishlistPageRelinked_def wishlistPage_def)
  have s: "nextElementSibling wishlistPage 10 = nextElementSibling wishlistPageRelinked 10"
    by (simp add: wishlistPageRelinked_def)
  have cl: "\<forall>n. classList_contains wishlistPage n ''cpj3fk1''
              = classList_contains wishlistPageRelinked n ''cpj3fk1''"
    by (simp add: wishlistPageRelinked_def)
  have qs: "\<forall>n. querySelector wishlistPage n ''div.nzkbe2g''
              = querySelector wishlistPageRelinked n ''div.nzkbe2g''"
    by (simp add: wishlistPageRelinked_def)
  have tc: "\<forall>e. textContent wishlistPage e = textContent wishlistPageRelinked e"
    by (simp add: wishlistPageRelinked_def)
  note t = extractComment_ignores_link [of wishlistPage 10 wishlistPageRelinked 10]
  have a: "extractComment wishlistPage 10 = siblingComment wishlistPage 10"
    by (rule t [THEN conjunct1, THEN mp]) (rule l1)
  have b: "extractComment wishlistPage 10 = extractComment wishlistPageRelinked 10"
    by (rule t [THEN conjunct2, THEN mp]) (intro conjI l1 l2 s cl qs tc)
  have v: "extractComment wishlistPage 10 = js ''Nice view''"
    by (simp add: extractComment_def catchEmpty_def wp_comment1)
  from r1 r2 a b v show ?thesis by (intro conjI)
qed

end
